theory Spec2Isabelle
  imports Main
begin

section \<open>JavaScript values\<close>

text \<open>
  A MongoDB \<open>ObjectId\<close> is modelled by its hexadecimal string form, so \<open>toString\<close> is
  the identity and two ids are equal exactly when their strings are. A \<open>Date\<close> is its
  number of milliseconds. A schema path of type \<open>String\<close> that may be \<open>undefined\<close> is a
  \<open>string option\<close>; a \<open>Number\<close> holds an integer here.
\<close>

type_synonym ObjectId = string
type_synonym Date = nat

definition toString :: "ObjectId \<Rightarrow> string" where
  "toString i = i"

text \<open>Truthiness of a string-or-undefined value, and the operator \<open>a || b\<close> on such values.\<close>

definition truthy :: "string option \<Rightarrow> bool" where
  "truthy v = (case v of None \<Rightarrow> False | Some s \<Rightarrow> s \<noteq> [])"

definition js_or :: "string option \<Rightarrow> string option \<Rightarrow> string option" where
  "js_or a b = (if truthy a then a else b)"

text \<open>
  What a handler can throw: \<open>new Error(msg)\<close>, a Mongoose validation failure (with the
  schema paths that failed), a \<open>TypeError\<close> from reading a property of \<open>null\<close>, and
  an error of the store with its code.
\<close>

datatype error =
  Error string | ValidationError "string list" | TypeError string | MongoServerError nat

text \<open>A handler's reply: a JSON body with its HTTP status, or an error reply.\<close>

datatype 'a response = Json nat 'a | ErrorJson nat error

section \<open>models/User.js\<close>

record Profile =
  name :: "string option"
  phone :: "string option"
  address :: "string option"
  bloodGroup :: "string option"
  dateOfBirth :: "Date option"
  gender :: "string option"

text \<open>
  The fields \<open>_id\<close>, \<open>type\<close>, \<open>status\<close>, \<open>createdAt\<close> and \<open>updatedAt\<close> of a user are
  \<open>user_id\<close>, \<open>user_type\<close>, \<open>user_status\<close>, \<open>user_createdAt\<close> and \<open>user_updatedAt\<close>;
  \<open>data\<close> is the legacy object, read by key as in \<open>user.data[user.type + '-name']\<close>.
\<close>

record User =
  user_id :: ObjectId
  email :: string
  password :: "string option"
  googleId :: "string option"
  user_type :: string
  user_status :: string
  profile :: Profile
  data :: "string \<rightharpoonup> string"
  lastLogin :: "Date option"
  loginAttempts :: nat
  accountLocked :: bool
  lockUntil :: "Date option"
  emailVerified :: bool
  passwordResetToken :: "string option"
  passwordResetExpires :: "Date option"
  user_createdAt :: Date
  user_updatedAt :: Date

section \<open>models/Donation.js, models/Request.js\<close>

text \<open>One element of \<open>rejectedByHospitals\<close>.\<close>

record Rejection =
  rej_hospitalId :: ObjectId
  rej_hospitalName :: "string option"
  rej_rejectionReason :: string
  rejectedAt :: Date

text \<open>
  The paths the two schemas share. \<open>doc_id\<close> is \<open>_id\<close>; \<open>details\<close> is the schema's nested
  object, of a type that differs between donations and requests.
\<close>

record 'd Entry =
  doc_id :: ObjectId
  type :: "string option"
  details :: 'd
  status :: string
  hospitalId :: "ObjectId option"
  hospitalName :: "string option"
  patientId :: "ObjectId option"
  patientName :: "string option"
  rejectionReason :: "string option"
  approvedBy :: "ObjectId option"
  rejectedByHospitals :: "Rejection list"
  createdAt :: Date
  updatedAt :: Date
  approvedAt :: "Date option"
  completedAt :: "Date option"

record DonationDetails =
  d_bloodType :: "string option"
  d_bloodUnits :: "int option"
  d_weight :: "int option"
  d_healthStatus :: "string option"
  d_lastDonationDate :: "string option"
  d_medications :: "string option"
  d_medicineName :: "string option"
  d_medicineType :: "string option"
  d_quantity :: "int option"
  d_expiryDate :: "Date option"
  d_availability :: "string option"
  contactPreference :: "string option"
  contactDetails :: "string option"
  d_address :: "string option"
  d_urgency :: "string option"
  d_notes :: "string option"

record RequestDetails =
  r_bloodType :: "string option"
  r_bloodUnits :: "int option"
  r_medicineName :: "string option"
  r_medicineType :: "string option"
  r_quantity :: "int option"
  bedType :: "string option"
  duration :: "int option"
  doctorSpecialty :: "string option"
  appointmentDate :: "Date option"
  r_urgency :: "string option"
  medicalHistory :: "string option"
  additionalNotes :: "string option"

record Donation = "DonationDetails Entry" +
  donorId :: ObjectId
  donorName :: "string option"
  donorEmail :: "string option"
  donorPhone :: "string option"

record Request = "RequestDetails Entry" +
  patientEmail :: "string option"
  patientPhone :: "string option"
  fulfilledBy_donationId :: "ObjectId option"
  fulfilledBy_resourceId :: "string option"
  fulfilledBy_assignedAt :: "Date option"

subsection \<open>Schema validation\<close>

text \<open>
  \<open>save()\<close> validates the document against its schema before the \<open>pre('save')\<close> hooks
  run; a path that is \<open>required\<close> must be present and a path with an \<open>enum\<close> must hold
  one of its values when it is present.
\<close>

definition bloodType_enum :: "string list" where
  "bloodType_enum = [''A+'', ''A-'', ''B+'', ''B-'', ''AB+'', ''AB-'', ''O+'', ''O-'']"

definition medicineType_enum :: "string list" where
  "medicineType_enum = [''tablet'', ''capsule'', ''syrup'', ''injection'', ''cream'', ''drops'']"

definition urgency_enum :: "string list" where
  "urgency_enum = [''low'', ''medium'', ''high'', ''critical'']"

definition bedType_enum :: "string list" where
  "bedType_enum = [''general'', ''icu'', ''emergency'', ''maternity'', ''pediatric'']"

definition doctorSpecialty_enum :: "string list" where
  "doctorSpecialty_enum =
     [''general'', ''cardiology'', ''neurology'', ''orthopedic'', ''pediatric'', ''emergency'']"

definition donation_type_enum :: "string list" where
  "donation_type_enum = [''blood'', ''medicine'']"

definition request_type_enum :: "string list" where
  "request_type_enum = [''blood'', ''medicine'', ''bed'', ''doctor'']"

definition donation_status_enum :: "string list" where
  "donation_status_enum = [''pending'', ''approved'', ''rejected'', ''completed'', ''expired'']"

definition request_status_enum :: "string list" where
  "request_status_enum = [''pending'', ''approved'', ''rejected'', ''completed'', ''cancelled'']"

text \<open>The paths among \<open>checks\<close> whose test fails.\<close>

definition failing :: "(string \<times> bool) list \<Rightarrow> string list" where
  "failing checks = map fst (filter (\<lambda>c. \<not> snd c) checks)"

definition enum_ok :: "string list \<Rightarrow> string option \<Rightarrow> bool" where
  "enum_ok values v = (case v of None \<Rightarrow> True | Some s \<Rightarrow> s \<in> set values)"

definition required_enum_ok :: "string list \<Rightarrow> string option \<Rightarrow> bool" where
  "required_enum_ok values v = (case v of None \<Rightarrow> False | Some s \<Rightarrow> s \<in> set values)"

definition donation_invalid_paths :: "Donation \<Rightarrow> string list" where
  "donation_invalid_paths d = failing
     [(''type'', required_enum_ok donation_type_enum (type d)),
      (''details.bloodType'', enum_ok bloodType_enum (d_bloodType (details d))),
      (''details.medicineType'', enum_ok medicineType_enum (d_medicineType (details d))),
      (''details.urgency'', enum_ok urgency_enum (d_urgency (details d))),
      (''status'', status d \<in> set donation_status_enum)]"

definition request_invalid_paths :: "Request \<Rightarrow> string list" where
  "request_invalid_paths r = failing
     [(''patientId'', patientId r \<noteq> None),
      (''type'', required_enum_ok request_type_enum (type r)),
      (''details.bloodType'', enum_ok bloodType_enum (r_bloodType (details r))),
      (''details.medicineType'', enum_ok medicineType_enum (r_medicineType (details r))),
      (''details.bedType'', enum_ok bedType_enum (bedType (details r))),
      (''details.doctorSpecialty'', enum_ok doctorSpecialty_enum (doctorSpecialty (details r))),
      (''details.urgency'', enum_ok urgency_enum (r_urgency (details r))),
      (''status'', status r \<in> set request_status_enum)]"

subsection \<open>The \<open>pre('save')\<close> hook of both schemas\<close>

text \<open>
  \<open>modified\<close> is \<open>this.isModified('status')\<close>: for a document read from the store, whether
  the status now differs from the stored one; for a new document built with a status, true.
  A \<open>Date\<close> object is truthy, so \<open>!this.approvedAt\<close> holds exactly when the path is unset.
\<close>

definition pre_save :: "Date \<Rightarrow> bool \<Rightarrow> ('d, 'z) Entry_scheme \<Rightarrow> ('d, 'z) Entry_scheme" where
  "pre_save now modified doc =
     (let d1 = doc\<lparr>updatedAt := now\<rparr> in
      if modified then
        (let d2 = (if status d1 = ''approved'' \<and> approvedAt d1 = None
                   then d1\<lparr>approvedAt := Some now\<rparr> else d1)
         in if status d2 = ''completed'' \<and> completedAt d2 = None
            then d2\<lparr>completedAt := Some now\<rparr> else d2)
      else d1)"

text \<open>
  \<open>doc.save()\<close> for a document read from the store with status \<open>stored\<close>: the saved
  document, or the validation error (and then nothing is written).
\<close>

definition save_donation :: "Date \<Rightarrow> string \<Rightarrow> Donation \<Rightarrow> error + Donation" where
  "save_donation now stored d =
     (if donation_invalid_paths d = [] then Inr (pre_save now (status d \<noteq> stored) d)
      else Inl (ValidationError (donation_invalid_paths d)))"

definition save_request :: "Date \<Rightarrow> string \<Rightarrow> Request \<Rightarrow> error + Request" where
  "save_request now stored r =
     (if request_invalid_paths r = [] then Inr (pre_save now (status r \<noteq> stored) r)
      else Inl (ValidationError (request_invalid_paths r)))"

section \<open>routes/donations.js and routes/requests.js: PATCH /:id\<close>

text \<open>The request body \<open>{status, rejectionReason, patientId}\<close>.\<close>

record PatchBody =
  body_status :: "string option"
  body_rejectionReason :: "string option"
  body_patientId :: "ObjectId option"

text \<open>\<open>req.user.profile?.name || req.user.data[req.user.type + '-name']\<close>\<close>

definition caller_name :: "User \<Rightarrow> string option" where
  "caller_name user = js_or (name (profile user)) (data user (user_type user @ ''-name''))"

text \<open>The element a rejection pushes.\<close>

definition new_rejection :: "User \<Rightarrow> string option \<Rightarrow> Date \<Rightarrow> Rejection" where
  "new_rejection user reason now =
     \<lparr>rej_hospitalId = user_id user,
      rej_hospitalName = caller_name user,
      rej_rejectionReason =
        (case reason of None \<Rightarrow> ''No reason provided''
         | Some s \<Rightarrow> if s = [] then ''No reason provided'' else s),
      rejectedAt = now\<rparr>"

text \<open>
  \<open>existingRejection\<close>:
  \<open>rejectedByHospitals.find(r => r.hospitalId.toString() === req.user._id.toString())\<close>
\<close>

definition existingRejection :: "User \<Rightarrow> Rejection list \<Rightarrow> Rejection option" where
  "existingRejection user rs =
     find (\<lambda>r. toString (rej_hospitalId r) = toString (user_id user)) rs"

text \<open>
  The handler of \<open>PATCH /donations/:id\<close> from the document it found to the document it
  saved and returned. The branches follow the source: hospital, donor, then everyone who
  is not an admin is refused, and an admin falls through to the \<open>patientId\<close> assignment,
  which every caller that was not refused reaches: \<open>if (req.body.patientId)\<close> tests that the
  body's value is truthy.
\<close>

definition patch_donation :: "User \<Rightarrow> PatchBody \<Rightarrow> Date \<Rightarrow> Donation \<Rightarrow> error + Donation" where
  "patch_donation user body now donation =
     (let updated =
        (if user_type user = ''hospital'' then
           (if body_status body \<notin> {Some ''approved'', Some ''rejected'', Some ''completed''}
            then Inl (Error ''Invalid status update'')
            else if body_status body = Some ''approved'' then
              Inr (donation\<lparr>status := ''approved'',
                            hospitalId := Some (user_id user),
                            hospitalName := caller_name user,
                            approvedBy := Some (user_id user)\<rparr>)
            else if body_status body = Some ''rejected'' then
              (case existingRejection user (rejectedByHospitals donation) of
                 None \<Rightarrow> Inr (donation\<lparr>rejectedByHospitals := rejectedByHospitals donation @
                                [new_rejection user (body_rejectionReason body) now]\<rparr>)
               | Some r \<Rightarrow> Inr donation)
            else Inr (donation\<lparr>status := ''completed''\<rparr>))
         else if user_type user = ''donor'' then
           (if toString (donorId donation) \<noteq> toString (user_id user)
               \<or> body_status body \<noteq> Some ''cancelled''
            then Inl (Error ''Not authorized'')
            else Inr (donation\<lparr>status := ''cancelled''\<rparr>))
         else if user_type user \<noteq> ''admin'' then Inl (Error ''Not authorized'')
         else Inr donation)
      in case updated of
           Inl e \<Rightarrow> Inl e
         | Inr d \<Rightarrow>
             save_donation now (status donation)
               (if truthy (body_patientId body) then d\<lparr>patientId := body_patientId body\<rparr> else d))"

text \<open>
  The handler of \<open>PATCH /requests/:id\<close>, from the document it found: the role was checked
  before (only hospitals and admins get here), the status is validated, then the three
  branches of the source.
\<close>

definition patch_request :: "User \<Rightarrow> PatchBody \<Rightarrow> Date \<Rightarrow> Request \<Rightarrow> error + Request" where
  "patch_request user body now request =
     (case body_status body of
        None \<Rightarrow> Inl (Error ''Invalid status. Must be approved, rejected, or completed'')
      | Some st \<Rightarrow>
          if st \<notin> {''approved'', ''rejected'', ''completed''}
          then Inl (Error ''Invalid status. Must be approved, rejected, or completed'')
          else
            save_request now (status request)
              (if st = ''approved'' then
                 request\<lparr>status := ''approved'',
                         hospitalId := Some (user_id user),
                         hospitalName := caller_name user,
                         approvedBy := Some (user_id user)\<rparr>
               else if st = ''rejected'' then
                 (case existingRejection user (rejectedByHospitals request) of
                    None \<Rightarrow> request\<lparr>rejectedByHospitals := rejectedByHospitals request @
                              [new_rejection user (body_rejectionReason body) now]\<rparr>
                  | Some r \<Rightarrow> request)
               else
                 request\<lparr>status := st,
                         hospitalId := Some (user_id user),
                         hospitalName := caller_name user,
                         approvedBy := Some (user_id user)\<rparr>))"

section \<open>models/Stats.js\<close>

text \<open>
  The schema has no path \<open>totalRequests\<close>. \<open>save()\<close> writes the schema's paths only, so a
  property of that name set on a Stats document is never stored.
\<close>

record Stats =
  totalUsers :: int
  totalDonors :: int
  totalHospitals :: int
  totalPatients :: int
  totalDonations :: int
  lastUpdated :: Date

section \<open>The document store\<close>

text \<open>
  Each collection in insertion order. \<open>_id\<close> is a unique index: inserting a document
  whose id is taken fails with the duplicate key error (code 11000).
\<close>

record Store =
  users :: "User list"
  donations :: "Donation list"
  requests :: "Request list"
  stats :: "Stats list"

definition empty_store :: Store where
  "empty_store = \<lparr>users = [], donations = [], requests = [], stats = []\<rparr>"

definition findById :: "ObjectId \<Rightarrow> ('d, 'z) Entry_scheme list \<Rightarrow> ('d, 'z) Entry_scheme option" where
  "findById i docs = find (\<lambda>d. doc_id d = i) docs"

definition insert_doc ::
  "('d, 'z) Entry_scheme \<Rightarrow> ('d, 'z) Entry_scheme list \<Rightarrow> error + ('d, 'z) Entry_scheme list" where
  "insert_doc d docs =
     (if doc_id d \<in> set (map doc_id docs) then Inl (MongoServerError 11000)
      else Inr (docs @ [d]))"

definition update_doc ::
  "('d, 'z) Entry_scheme \<Rightarrow> ('d, 'z) Entry_scheme list \<Rightarrow> ('d, 'z) Entry_scheme list" where
  "update_doc d docs = map (\<lambda>x. if doc_id x = doc_id d then d else x) docs"

definition findByIdAndDelete ::
  "ObjectId \<Rightarrow> ('d, 'z) Entry_scheme list \<Rightarrow> ('d, 'z) Entry_scheme list" where
  "findByIdAndDelete i docs = filter (\<lambda>d. doc_id d \<noteq> i) docs"

text \<open>\<open>Stats.findOne({})\<close>: the first document of the collection, or \<open>null\<close>.\<close>

definition stats_findOne :: "Store \<Rightarrow> Stats option" where
  "stats_findOne s = (case stats s of [] \<Rightarrow> None | x # xs \<Rightarrow> Some x)"

text \<open>
  \<open>stats.save()\<close> with the schema's hook (\<open>lastUpdated = Date.now()\<close>): a document that
  \<open>findOne\<close> returned replaces the first of the collection, a new one is inserted. \<open>ok\<close>
  is whether the store accepts the write; when it does not, \<open>save()\<close> rejects.
\<close>

definition stats_save :: "bool \<Rightarrow> Date \<Rightarrow> Stats \<Rightarrow> Store \<Rightarrow> error + Store" where
  "stats_save ok now st s =
     (if \<not> ok then Inl (Error ''stats write failed'')
      else Inr (s\<lparr>stats := (case stats s of [] \<Rightarrow> [st\<lparr>lastUpdated := now\<rparr>]
                               | x # xs \<Rightarrow> st\<lparr>lastUpdated := now\<rparr> # xs)\<rparr>))"

section \<open>routes/donations.js\<close>

subsection \<open>POST /\<close>

record 'd CreateBody =
  body_type :: "string option"
  body_details :: "'d option"

text \<open>The nested \<open>details\<close> of a new donation: what the body gave, and the schema's defaults.\<close>

definition no_donation_details :: DonationDetails where
  "no_donation_details =
     \<lparr>d_bloodType = None, d_bloodUnits = None, d_weight = None, d_healthStatus = None,
      d_lastDonationDate = None, d_medications = None, d_medicineName = None,
      d_medicineType = None, d_quantity = None, d_expiryDate = None, d_availability = None,
      contactPreference = None, contactDetails = None, d_address = None, d_urgency = None,
      d_notes = None\<rparr>"

definition donation_details_defaults :: "DonationDetails option \<Rightarrow> DonationDetails" where
  "donation_details_defaults given =
     (let d = (case given of None \<Rightarrow> no_donation_details | Some x \<Rightarrow> x) in
      d\<lparr>d_bloodUnits := (case d_bloodUnits d of None \<Rightarrow> Some 1 | Some n \<Rightarrow> Some n),
        d_urgency := (case d_urgency d of None \<Rightarrow> Some ''medium'' | Some u \<Rightarrow> Some u)\<rparr>)"

text \<open>\<open>details?.contactDetails\<close> and \<open>details?.contactPreference\<close>\<close>

definition opt_contactDetails :: "DonationDetails option \<Rightarrow> string option" where
  "opt_contactDetails given = (case given of None \<Rightarrow> None | Some d \<Rightarrow> contactDetails d)"

definition opt_contactPreference :: "DonationDetails option \<Rightarrow> string option" where
  "opt_contactPreference given = (case given of None \<Rightarrow> None | Some d \<Rightarrow> contactPreference d)"

text \<open>
  The document \<open>new Donation({...})\<close> builds. \<open>donor\<close> is the caller's document, read again
  by id. The user schema has no \<open>profile.email\<close> and no \<open>displayName\<close>, so these read
  \<open>undefined\<close>.
\<close>

definition new_donation :: "User \<Rightarrow> DonationDetails CreateBody \<Rightarrow> ObjectId \<Rightarrow> Date \<Rightarrow> Donation" where
  "new_donation donor body newId now =
     (let given = body_details body;
          donorEmail =
            (if truthy (opt_contactDetails given) \<and> opt_contactPreference given = Some ''email''
             then opt_contactDetails given
             else js_or (Some (email donor)) (js_or None (data donor ''email'')));
          donorPhone =
            (if truthy (opt_contactDetails given) \<and>
                (opt_contactPreference given = Some ''phone'' \<or>
                 opt_contactPreference given = Some ''sms'')
             then opt_contactDetails given
             else js_or (phone (profile donor))
                    (js_or (data donor ''phone'') (data donor (user_type donor @ ''-phone''))))
      in \<lparr>doc_id = newId,
          type = body_type body,
          details = donation_details_defaults given,
          status = ''pending'',
          hospitalId = None,
          hospitalName = None,
          patientId = None,
          patientName = None,
          rejectionReason = None,
          approvedBy = None,
          rejectedByHospitals = [],
          createdAt = now,
          updatedAt = now,
          approvedAt = None,
          completedAt = None,
          donorId = user_id donor,
          donorName =
            js_or (name (profile donor))
              (js_or (data donor (user_type donor @ ''-name''))
                 (js_or None (Some ''Unknown Donor''))),
          donorEmail = js_or donorEmail (Some ''No Email''),
          donorPhone = js_or donorPhone (Some ''No Phone'')\<rparr>)"

text \<open>
  \<open>donation.save()\<close> of a new document: validation, the hook (a status given to the
  constructor counts as modified), the insert.
\<close>

definition insert_donation :: "Date \<Rightarrow> Donation \<Rightarrow> Store \<Rightarrow> error + (Donation \<times> Store)" where
  "insert_donation now d s =
     (if donation_invalid_paths d \<noteq> [] then Inl (ValidationError (donation_invalid_paths d))
      else (let saved = pre_save now True d in
            case insert_doc saved (donations s) of
              Inl e \<Rightarrow> Inl e
            | Inr ds \<Rightarrow> Inr (saved, s\<lparr>donations := ds\<rparr>)))"

text \<open>
  The handler. \<open>stats_ok\<close> is whether the store accepts the write of the Stats document.
  A failure after \<open>donation.save()\<close> is caught like any other: the reply is the error, and
  the store keeps what was written before.
\<close>

definition router_post_donations ::
  "User \<Rightarrow> DonationDetails CreateBody \<Rightarrow> ObjectId \<Rightarrow> Date \<Rightarrow> bool \<Rightarrow> Store
     \<Rightarrow> Donation response \<times> Store" where
  "router_post_donations user body newId now stats_ok s =
     (if user_type user \<noteq> ''donor''
      then (ErrorJson 400 (Error ''Only donors can create donations''), s)
      else
        case insert_donation now (new_donation user body newId now) s of
          Inl e \<Rightarrow> (ErrorJson 400 e, s)
        | Inr (donation, s1) \<Rightarrow>
            (case stats_findOne s1 of
               None \<Rightarrow> (ErrorJson 400 (TypeError ''Cannot read properties of null''), s1)
             | Some st \<Rightarrow>
                 (case stats_save stats_ok now (st\<lparr>totalDonations := totalDonations st + 1\<rparr>) s1 of
                    Inl e \<Rightarrow> (ErrorJson 400 e, s1)
                  | Inr s2 \<Rightarrow> (Json 201 donation, s2))))"

subsection \<open>GET /\<close>

text \<open>
  The filters the handlers build, and MongoDB's reading of them. A condition \<open>{path: v}\<close>
  holds when the path's value is \<open>v\<close> or, for a path through an array, when some
  element's value is \<open>v\<close>; \<open>{path: {$ne: v}}\<close> holds when no value at the path is \<open>v\<close>
  (also when there is none). A filter document is the conjunction of its conditions,
  \<open>$or\<close> the disjunction of its filter documents.
\<close>

datatype path = P_status | P_hospitalId | P_patientId | P_donorId | P_rejectedByHospitals_hospitalId

datatype cond = Eq path string | Ne path string

datatype query = Fields "cond list" | Or "cond list list"

definition opt_values :: "'a option \<Rightarrow> 'a list" where
  "opt_values v = (case v of None \<Rightarrow> [] | Some x \<Rightarrow> [x])"

fun entry_values :: "('d, 'z) Entry_scheme \<Rightarrow> path \<Rightarrow> string list" where
  "entry_values e P_status = [status e]"
| "entry_values e P_hospitalId = opt_values (hospitalId e)"
| "entry_values e P_patientId = opt_values (patientId e)"
| "entry_values e P_donorId = []"
| "entry_values e P_rejectedByHospitals_hospitalId = map rej_hospitalId (rejectedByHospitals e)"

definition donation_values :: "Donation \<Rightarrow> path \<Rightarrow> string list" where
  "donation_values d p = (if p = P_donorId then [donorId d] else entry_values d p)"

fun holds :: "(path \<Rightarrow> string list) \<Rightarrow> cond \<Rightarrow> bool" where
  "holds vals (Eq p v) = (v \<in> set (vals p))"
| "holds vals (Ne p v) = (v \<notin> set (vals p))"

fun matches :: "(path \<Rightarrow> string list) \<Rightarrow> query \<Rightarrow> bool" where
  "matches vals (Fields cs) = list_all (holds vals) cs"
| "matches vals (Or alts) = list_ex (list_all (holds vals)) alts"

text \<open>The \<open>$or\<close> both handlers build for a hospital.\<close>

definition hospital_query :: "ObjectId \<Rightarrow> query" where
  "hospital_query uid = Or
     [[Eq P_status ''pending'', Ne P_rejectedByHospitals_hospitalId uid],
      [Eq P_status ''approved'', Eq P_hospitalId uid],
      [Eq P_status ''rejected'', Eq P_hospitalId uid],
      [Eq P_rejectedByHospitals_hospitalId uid]]"

definition donations_query :: "User \<Rightarrow> error + query" where
  "donations_query user =
     (if user_type user = ''donor'' then Inr (Fields [Eq P_donorId (user_id user)])
      else if user_type user = ''hospital'' then Inr (hospital_query (user_id user))
      else if user_type user = ''patient'' then Inr (Fields [Eq P_patientId (user_id user)])
      else if user_type user = ''admin'' then Inr (Fields [])
      else Inl (Error ''Invalid user type''))"

text \<open>
  \<open>Donation.find(query)\<close>, in the collection's order. \<open>populate\<close> only replaces the
  references of a returned document by the users they name; the documents are listed
  here as stored.
\<close>

definition router_get_donations :: "User \<Rightarrow> Store \<Rightarrow> Donation list response" where
  "router_get_donations user s =
     (case donations_query user of
        Inl e \<Rightarrow> ErrorJson 400 e
      | Inr q \<Rightarrow> Json 200 (filter (\<lambda>d. matches (donation_values d) q) (donations s)))"

subsection \<open>PATCH /:id and DELETE /:id\<close>

definition router_patch_donations ::
  "User \<Rightarrow> ObjectId \<Rightarrow> PatchBody \<Rightarrow> Date \<Rightarrow> Store \<Rightarrow> Donation response \<times> Store" where
  "router_patch_donations user i body now s =
     (case findById i (donations s) of
        None \<Rightarrow> (ErrorJson 400 (Error ''Donation not found''), s)
      | Some donation \<Rightarrow>
          (case patch_donation user body now donation of
             Inl e \<Rightarrow> (ErrorJson 400 e, s)
           | Inr d \<Rightarrow> (Json 200 d, s\<lparr>donations := update_doc d (donations s)\<rparr>)))"

definition router_delete_donations :: "User \<Rightarrow> ObjectId \<Rightarrow> Store \<Rightarrow> ObjectId response \<times> Store" where
  "router_delete_donations user i s =
     (case findById i (donations s) of
        None \<Rightarrow> (ErrorJson 404 (Error ''Donation not found''), s)
      | Some donation \<Rightarrow>
          if user_type user = ''donor'' \<and> toString (donorId donation) \<noteq> toString (user_id user)
          then (ErrorJson 403 (Error ''You can only delete your own donations''), s)
          else if user_type user \<noteq> ''donor'' \<and> user_type user \<noteq> ''admin''
          then (ErrorJson 403 (Error ''Not authorized to delete donations''), s)
          else (Json 200 i, s\<lparr>donations := findByIdAndDelete i (donations s)\<rparr>))"

section \<open>routes/requests.js\<close>

subsection \<open>POST /\<close>

definition no_request_details :: RequestDetails where
  "no_request_details =
     \<lparr>r_bloodType = None, r_bloodUnits = None, r_medicineName = None, r_medicineType = None,
      r_quantity = None, bedType = None, duration = None, doctorSpecialty = None,
      appointmentDate = None, r_urgency = None, medicalHistory = None,
      additionalNotes = None\<rparr>"

definition request_details_defaults :: "RequestDetails option \<Rightarrow> RequestDetails" where
  "request_details_defaults given =
     (let d = (case given of None \<Rightarrow> no_request_details | Some x \<Rightarrow> x) in
      d\<lparr>r_bloodUnits := (case r_bloodUnits d of None \<Rightarrow> Some 1 | Some n \<Rightarrow> Some n),
        r_urgency := (case r_urgency d of None \<Rightarrow> Some ''medium'' | Some u \<Rightarrow> Some u)\<rparr>)"

definition new_request :: "User \<Rightarrow> RequestDetails CreateBody \<Rightarrow> ObjectId \<Rightarrow> Date \<Rightarrow> Request" where
  "new_request patient body newId now =
     \<lparr>doc_id = newId,
      type = body_type body,
      details = request_details_defaults (body_details body),
      status = ''pending'',
      hospitalId = None,
      hospitalName = None,
      patientId = Some (user_id patient),
      patientName =
        js_or (name (profile patient)) (data patient (user_type patient @ ''-name'')),
      rejectionReason = None,
      approvedBy = None,
      rejectedByHospitals = [],
      createdAt = now,
      updatedAt = now,
      approvedAt = None,
      completedAt = None,
      patientEmail = Some (email patient),
      patientPhone =
        js_or (phone (profile patient)) (data patient (user_type patient @ ''-phone'')),
      fulfilledBy_donationId = None,
      fulfilledBy_resourceId = None,
      fulfilledBy_assignedAt = None\<rparr>"

definition insert_request :: "Date \<Rightarrow> Request \<Rightarrow> Store \<Rightarrow> error + (Request \<times> Store)" where
  "insert_request now r s =
     (if request_invalid_paths r \<noteq> [] then Inl (ValidationError (request_invalid_paths r))
      else (let saved = pre_save now True r in
            case insert_doc saved (requests s) of
              Inl e \<Rightarrow> Inl e
            | Inr rs \<Rightarrow> Inr (saved, s\<lparr>requests := rs\<rparr>)))"

text \<open>
  \<open>new Stats({totalUsers: 0, ..., totalRequests: 0})\<close>: the constructor keeps the schema's
  paths.
\<close>

definition new_Stats :: "Date \<Rightarrow> Stats" where
  "new_Stats now =
     \<lparr>totalUsers = 0, totalDonors = 0, totalHospitals = 0, totalPatients = 0,
      totalDonations = 0, lastUpdated = now\<rparr>"

text \<open>The \<open>request\<close> object of the reply.\<close>

record RequestCreated =
  created_id :: ObjectId
  created_type :: "string option"
  created_details :: RequestDetails
  created_status :: string
  created_patientName :: "string option"
  created_createdAt :: Date

text \<open>
  The handler. \<open>stats.totalRequests = (stats.totalRequests || 0) + 1\<close> reads and sets a
  property that is no path of the Stats schema: it reads \<open>undefined\<close>, the handler's object
  gets the value \<open>totalRequests\<close> below, and \<open>stats.save()\<close> writes the document without it.
\<close>

definition router_post_requests ::
  "User \<Rightarrow> RequestDetails CreateBody \<Rightarrow> ObjectId \<Rightarrow> Date \<Rightarrow> bool \<Rightarrow> Store
     \<Rightarrow> RequestCreated response \<times> Store" where
  "router_post_requests user body newId now stats_ok s =
     (if user_type user \<noteq> ''patient''
      then (ErrorJson 403 (Error ''Only patients can create requests''), s)
      else
        case insert_request now (new_request user body newId now) s of
          Inl e \<Rightarrow> (ErrorJson 400 e, s)
        | Inr (request, s1) \<Rightarrow>
            (let st = (case stats_findOne s1 of None \<Rightarrow> new_Stats now | Some x \<Rightarrow> x);
                 totalRequests = (0::int) + 1
             in case stats_save stats_ok now st s1 of
                  Inl e \<Rightarrow> (ErrorJson 400 e, s1)
                | Inr s2 \<Rightarrow>
                    (Json 201
                       \<lparr>created_id = doc_id request,
                        created_type = type request,
                        created_details = details request,
                        created_status = status request,
                        created_patientName = patientName request,
                        created_createdAt = createdAt request\<rparr>, s2)))"

subsection \<open>GET /\<close>

definition requests_query :: "User \<Rightarrow> (nat \<times> error) + query" where
  "requests_query user =
     (if user_type user = ''patient'' then Inr (Fields [Eq P_patientId (user_id user)])
      else if user_type user = ''hospital'' then Inr (hospital_query (user_id user))
      else if user_type user = ''admin'' then Inr (Fields [])
      else Inl (403, Error ''Not authorized to view requests''))"

text \<open>
  \<open>Request.find(query).sort({createdAt: -1})\<close>: newest first. The store leaves the order
  of documents with equal \<open>createdAt\<close> open; here the later insertion comes first.
\<close>

definition router_get_requests :: "User \<Rightarrow> Store \<Rightarrow> Request list response" where
  "router_get_requests user s =
     (case requests_query user of
        Inl (c, e) \<Rightarrow> ErrorJson c e
      | Inr q \<Rightarrow>
          Json 200 (rev (sort_key createdAt (filter (\<lambda>r. matches (entry_values r) q) (requests s)))))"

subsection \<open>PATCH /:id and DELETE /:id\<close>

record RequestPatched =
  patched_id :: ObjectId
  patched_status :: string
  patched_hospitalName :: "string option"
  patched_updatedAt :: Date

definition router_patch_requests ::
  "User \<Rightarrow> ObjectId \<Rightarrow> PatchBody \<Rightarrow> Date \<Rightarrow> Store \<Rightarrow> RequestPatched response \<times> Store" where
  "router_patch_requests user i body now s =
     (if user_type user \<notin> {''hospital'', ''admin''}
      then (ErrorJson 403 (Error ''Only hospitals and admins can update request status''), s)
      else
        case findById i (requests s) of
          None \<Rightarrow> (ErrorJson 404 (Error ''Request not found''), s)
        | Some request \<Rightarrow>
            (case patch_request user body now request of
               Inl e \<Rightarrow> (ErrorJson 400 e, s)
             | Inr r \<Rightarrow>
                 (Json 200
                    \<lparr>patched_id = doc_id r,
                     patched_status = status r,
                     patched_hospitalName = hospitalName r,
                     patched_updatedAt = updatedAt r\<rparr>,
                  s\<lparr>requests := update_doc r (requests s)\<rparr>)))"

definition router_delete_requests :: "User \<Rightarrow> ObjectId \<Rightarrow> Store \<Rightarrow> ObjectId response \<times> Store" where
  "router_delete_requests user i s =
     (case findById i (requests s) of
        None \<Rightarrow> (ErrorJson 404 (Error ''Request not found''), s)
      | Some request \<Rightarrow>
          if user_type user = ''patient'' \<and> patientId request = None
          then (ErrorJson 500 (Error ''Failed to delete request''), s)
          else if user_type user = ''patient''
             \<and> map_option toString (patientId request) \<noteq> Some (toString (user_id user))
          then (ErrorJson 403 (Error ''You can only delete your own requests''), s)
          else if user_type user \<noteq> ''patient'' \<and> user_type user \<noteq> ''admin''
          then (ErrorJson 403 (Error ''Not authorized to delete requests''), s)
          else (Json 200 i, s\<lparr>requests := findByIdAndDelete i (requests s)\<rparr>))"

section \<open>Sequences of calls\<close>

text \<open>
  One authenticated call to a route of the two routers, with everything the handler
  reads from outside: the caller's document, the parameters and body, the id the driver
  gives a new document, the clock, and whether the store accepts the Stats write.
\<close>

datatype call =
    PostDonation User "DonationDetails CreateBody" ObjectId Date bool
  | PatchDonation User ObjectId PatchBody Date
  | DeleteDonation User ObjectId
  | PostRequest User "RequestDetails CreateBody" ObjectId Date bool
  | PatchRequest User ObjectId PatchBody Date
  | DeleteRequest User ObjectId

fun step :: "call \<Rightarrow> Store \<Rightarrow> Store" where
  "step (PostDonation u b i t ok) s = snd (router_post_donations u b i t ok s)"
| "step (PatchDonation u i b t) s = snd (router_patch_donations u i b t s)"
| "step (DeleteDonation u i) s = snd (router_delete_donations u i s)"
| "step (PostRequest u b i t ok) s = snd (router_post_requests u b i t ok s)"
| "step (PatchRequest u i b t) s = snd (router_patch_requests u i b t s)"
| "step (DeleteRequest u i) s = snd (router_delete_requests u i s)"

text \<open>The store after the calls \<open>cs\<close>, made one after the other on \<open>s\<close>.\<close>

definition run :: "call list \<Rightarrow> Store \<Rightarrow> Store" where
  "run cs s = fold step cs s"

section \<open>Strings and regular expressions\<close>

text \<open>
  Strings are ASCII here. \<open>toLowerCase\<close> and \<open>trim\<close> on them, and the two
  regular expressions of the user routes and the user schema, matched by derivatives.
\<close>

definition upper_letters :: string where
  "upper_letters = ''ABCDEFGHIJKLMNOPQRSTUVWXYZ''"

definition lower_letters :: string where
  "lower_letters = ''abcdefghijklmnopqrstuvwxyz''"

definition digits :: string where
  "digits = ''0123456789''"

definition lower_char :: "char \<Rightarrow> char" where
  "lower_char c = (case map_of (zip upper_letters lower_letters) c of None \<Rightarrow> c | Some l \<Rightarrow> l)"

definition toLowerCase :: "string \<Rightarrow> string" where
  "toLowerCase s = map lower_char s"

definition whitespace :: string where
  "whitespace = [CHR '' '', CHR 0x09, CHR 0x0A, CHR 0x0B, CHR 0x0C, CHR 0x0D]"

definition trim :: "string \<Rightarrow> string" where
  "trim s = rev (dropWhile (\<lambda>c. c \<in> set whitespace) (rev (dropWhile (\<lambda>c. c \<in> set whitespace) s)))"

datatype regex = Zero | Eps | Chars string | Seq regex regex | Alt regex regex | Star regex

fun nullable :: "regex \<Rightarrow> bool" where
  "nullable Zero = False"
| "nullable Eps = True"
| "nullable (Chars cs) = False"
| "nullable (Seq r s) = (nullable r \<and> nullable s)"
| "nullable (Alt r s) = (nullable r \<or> nullable s)"
| "nullable (Star r) = True"

text \<open>Sequence and alternative, with \<open>Zero\<close> and \<open>Eps\<close> simplified away.\<close>

fun seq :: "regex \<Rightarrow> regex \<Rightarrow> regex" where
  "seq Zero s = Zero"
| "seq r Zero = Zero"
| "seq Eps s = s"
| "seq r s = Seq r s"

fun alt :: "regex \<Rightarrow> regex \<Rightarrow> regex" where
  "alt Zero s = s"
| "alt r Zero = r"
| "alt r s = (if r = s then r else Alt r s)"

fun deriv :: "char \<Rightarrow> regex \<Rightarrow> regex" where
  "deriv c Zero = Zero"
| "deriv c Eps = Zero"
| "deriv c (Chars cs) = (if c \<in> set cs then Eps else Zero)"
| "deriv c (Seq r s) =
     (if nullable r then alt (seq (deriv c r) s) (deriv c s) else seq (deriv c r) s)"
| "deriv c (Alt r s) = alt (deriv c r) (deriv c s)"
| "deriv c (Star r) = seq (deriv c r) (Star r)"

text \<open>\<open>/^r$/.test(s)\<close>\<close>

definition regex_test :: "regex \<Rightarrow> string \<Rightarrow> bool" where
  "regex_test r s = nullable (foldl (\<lambda>x c. deriv c x) r s)"

definition Plus :: "regex \<Rightarrow> regex" where
  "Plus r = Seq r (Star r)"

definition Opt :: "regex \<Rightarrow> regex" where
  "Opt r = Alt Eps r"

text \<open>\<open>\w\<close>\<close>

definition word_char :: regex where
  "word_char = Chars (upper_letters @ lower_letters @ digits @ ''_'')"

text \<open>\<open>\w+([.-]?\w+)*\<close>\<close>

definition dotted_words :: regex where
  "dotted_words = Seq (Plus word_char) (Star (Seq (Opt (Chars ''.-'')) (Plus word_char)))"

text \<open>\<open>/^\w+([.-]?\w+)*@\w+([.-]?\w+)*(\.\w{2,3})+$/\<close>\<close>

definition emailRegex :: regex where
  "emailRegex =
     Seq dotted_words
       (Seq (Chars ''@'')
          (Seq dotted_words
             (Plus (Seq (Chars ''.'') (Seq word_char (Seq word_char (Opt word_char)))))))"

text \<open>\<open>/^[0-9]{10}$/\<close>\<close>

definition phoneRegex :: regex where
  "phoneRegex = foldr Seq (replicate 10 (Chars digits)) Eps"

section \<open>models/User.js: validation, hooks and methods\<close>

definition user_type_enum :: "string list" where
  "user_type_enum = [''admin'', ''donor'', ''hospital'', ''patient'']"

definition user_status_enum :: "string list" where
  "user_status_enum = [''active'', ''deactivated'', ''pending'']"

definition gender_enum :: "string list" where
  "gender_enum = [''male'', ''female'', ''other'']"

text \<open>
  The schema's validators, run by \<open>save()\<close> before the hooks (so \<open>minlength\<close> sees the
  password as submitted on a first save).
\<close>

definition user_invalid_paths :: "User \<Rightarrow> string list" where
  "user_invalid_paths u = failing
     [(''email'', email u \<noteq> [] \<and> regex_test emailRegex (email u)),
      (''password'',
         (truthy (googleId u) \<or> truthy (password u)) \<and>
         (case password u of None \<Rightarrow> True | Some p \<Rightarrow> 8 \<le> length p)),
      (''type'', user_type u \<in> set user_type_enum),
      (''status'', user_status u \<in> set user_status_enum),
      (''profile.name'',
         truthy (name (profile u)) \<and>
         (case name (profile u) of None \<Rightarrow> True | Some n \<Rightarrow> 2 \<le> length n)),
      (''profile.phone'',
         truthy (phone (profile u)) \<and>
         (case phone (profile u) of None \<Rightarrow> True | Some p \<Rightarrow> regex_test phoneRegex p)),
      (''profile.address'', user_type u = ''hospital'' \<longrightarrow> truthy (address (profile u))),
      (''profile.bloodGroup'',
         enum_ok bloodType_enum (bloodGroup (profile u)) \<and>
         (user_type u = ''donor'' \<longrightarrow> truthy (bloodGroup (profile u)))),
      (''profile.gender'', enum_ok gender_enum (gender (profile u)))]"

text \<open>The first \<open>pre('save')\<close> hook: the timestamp, and the profile from the legacy data.\<close>

definition populate_profile :: "Date \<Rightarrow> User \<Rightarrow> User" where
  "populate_profile now u =
     (let u1 = u\<lparr>user_updatedAt := now\<rparr> in
      if \<not> truthy (name (profile u1)) then
        (let typePrefix = user_type u1 @ ''-'';
             p1 = (profile u1)
                    \<lparr>name := js_or (data u1 (typePrefix @ ''name'')) (data u1 ''name''),
                     phone := js_or (data u1 (typePrefix @ ''phone'')) (data u1 ''phone'')\<rparr>;
             p2 = (if user_type u1 = ''hospital''
                   then p1\<lparr>address := js_or (data u1 (typePrefix @ ''address'')) (data u1 ''address'')\<rparr>
                   else p1);
             p3 = (if user_type u1 = ''donor''
                   then p2\<lparr>bloodGroup :=
                          js_or (data u1 (typePrefix @ ''blood-group'')) (data u1 ''bloodGroup'')\<rparr>
                   else p2)
         in u1\<lparr>profile := p3\<rparr>)
      else u1)"

text \<open>
  The second hook: \<open>bcrypt.hash(this.password, 12)\<close> when the password was modified.
  \<open>hash\<close> is the digest bcrypt computes in this call (it draws the salt).
\<close>

definition hash_password :: "(string \<Rightarrow> string) \<Rightarrow> bool \<Rightarrow> User \<Rightarrow> User" where
  "hash_password hash modified u =
     (if truthy (googleId u) \<and> \<not> truthy (password u) then u
      else if \<not> modified then u
      else (case password u of
              None \<Rightarrow> u
            | Some p \<Rightarrow> u\<lparr>password := Some (hash p), passwordResetToken := None,
                           passwordResetExpires := None\<rparr>))"

text \<open>\<open>isLocked\<close> and \<open>comparePassword\<close>; \<open>compare\<close> is \<open>bcrypt.compare\<close>.\<close>

definition isLocked :: "Date \<Rightarrow> User \<Rightarrow> bool" where
  "isLocked now u =
     (accountLocked u \<and> (case lockUntil u of None \<Rightarrow> False | Some l \<Rightarrow> l > now))"

definition comparePassword :: "(string \<Rightarrow> string \<Rightarrow> bool) \<Rightarrow> User \<Rightarrow> string \<Rightarrow> bool" where
  "comparePassword compare u candidate =
     (if truthy (googleId u) \<and> \<not> truthy (password u) then False
      else (case password u of None \<Rightarrow> False | Some h \<Rightarrow> compare candidate h))"

text \<open>
  \<open>incLoginAttempts\<close> and \<open>resetLoginAttempts\<close> are \<open>updateOne\<close> calls: they change the
  stored document, not the one the handler holds. A path that is unset reads as its
  default.
\<close>

definition incLoginAttempts :: "Date \<Rightarrow> User \<Rightarrow> User" where
  "incLoginAttempts now u =
     (if (case lockUntil u of None \<Rightarrow> False | Some l \<Rightarrow> l < now)
      then u\<lparr>lockUntil := None, loginAttempts := 1\<rparr>
      else if loginAttempts u + 1 \<ge> 5 \<and> \<not> isLocked now u
      then u\<lparr>loginAttempts := loginAttempts u + 1, accountLocked := True,
             lockUntil := Some (now + 2 * 60 * 60 * 1000)\<rparr>
      else u\<lparr>loginAttempts := loginAttempts u + 1\<rparr>)"

definition resetLoginAttempts :: "Date \<Rightarrow> User \<Rightarrow> User" where
  "resetLoginAttempts now u =
     u\<lparr>loginAttempts := 0, lockUntil := None, accountLocked := False, lastLogin := Some now\<rparr>"

section \<open>The user routes\<close>

definition update_user :: "User \<Rightarrow> User list \<Rightarrow> User list" where
  "update_user u us = map (\<lambda>x. if user_id x = user_id u then u else x) us"

text \<open>\<open>User.findOne({email: e})\<close> and \<open>User.findOne({email: e, type: t})\<close>\<close>

definition findOne_email :: "string \<Rightarrow> User list \<Rightarrow> User option" where
  "findOne_email e us = find (\<lambda>u. email u = e) us"

definition findOne_email_type :: "string \<Rightarrow> string \<Rightarrow> User list \<Rightarrow> User option" where
  "findOne_email_type e t us = find (\<lambda>u. email u = e \<and> user_type u = t) us"

subsection \<open>POST /register\<close>

record RegisterBody =
  reg_type :: "string option"
  reg_name :: "string option"
  reg_email :: "string option"
  reg_phone :: "string option"
  reg_password :: "string option"
  reg_address :: "string option"
  reg_bloodGroup :: "string option"
  reg_dateOfBirth :: "Date option"
  reg_gender :: "string option"

text \<open>The legacy \<open>data\<close> object the handler builds for each type.\<close>

definition legacy_data ::
  "string \<Rightarrow> string \<Rightarrow> string \<Rightarrow> string \<Rightarrow> string \<Rightarrow> string option \<Rightarrow> string option
     \<Rightarrow> (string \<rightharpoonup> string)" where
  "legacy_data ty nm em ph pw addr bg =
     (if ty = ''patient'' then
        [''patient-name'' \<mapsto> nm, ''patient-email'' \<mapsto> toLowerCase em,
         ''patient-phone'' \<mapsto> ph, ''patient-password'' \<mapsto> pw]
      else if ty = ''hospital'' then
        (([''hospital-name'' \<mapsto> nm, ''hospital-email'' \<mapsto> toLowerCase em,
           ''hospital-phone'' \<mapsto> ph]) (''hospital-address'' := addr))
          (''hospital-password'' \<mapsto> pw)
      else if ty = ''donor'' then
        (([''donor-name'' \<mapsto> nm, ''donor-email'' \<mapsto> toLowerCase em,
           ''donor-phone'' \<mapsto> ph]) (''donor-blood-group'' := bg))
          (''donor-password'' \<mapsto> pw)
      else if ty = ''admin'' then
        [''admin-name'' \<mapsto> nm, ''admin-email'' \<mapsto> toLowerCase em, ''admin-password'' \<mapsto> pw]
      else Map.empty)"

text \<open>
  \<open>new User(userData)\<close>, with the schema's setters (\<open>trim\<close> and \<open>lowercase\<close> on the
  email, \<open>trim\<close> on the name) and defaults.
\<close>

definition new_User ::
  "RegisterBody \<Rightarrow> string \<Rightarrow> string \<Rightarrow> string \<Rightarrow> string \<Rightarrow> string \<Rightarrow> ObjectId \<Rightarrow> Date \<Rightarrow> User" where
  "new_User body ty nm em ph pw newId now =
     \<lparr>user_id = newId,
      email = trim (toLowerCase (toLowerCase em)),
      password = Some pw,
      googleId = None,
      user_type = ty,
      user_status = ''active'',
      profile =
        \<lparr>name = Some (trim (trim nm)),
         phone = Some (trim ph),
         address = (if ty = ''hospital'' then map_option trim (reg_address body) else None),
         bloodGroup = (if ty = ''donor'' then reg_bloodGroup body else None),
         dateOfBirth = reg_dateOfBirth body,
         gender = (if truthy (reg_gender body) then reg_gender body else None)\<rparr>,
      data = legacy_data ty nm em ph pw (reg_address body) (reg_bloodGroup body),
      lastLogin = None,
      loginAttempts = 0,
      accountLocked = False,
      lockUntil = None,
      emailVerified = False,
      passwordResetToken = None,
      passwordResetExpires = None,
      user_createdAt = now,
      user_updatedAt = now\<rparr>"

text \<open>
  \<open>user.save()\<close> of a new user: validation, the two hooks, the insert (the email and the
  id are unique indexes).
\<close>

definition insert_user :: "(string \<Rightarrow> string) \<Rightarrow> Date \<Rightarrow> User \<Rightarrow> Store \<Rightarrow> error + (User \<times> Store)" where
  "insert_user hash now u s =
     (if user_invalid_paths u \<noteq> [] then Inl (ValidationError (user_invalid_paths u))
      else (let saved = hash_password hash True (populate_profile now u) in
            if user_id saved \<in> set (map user_id (users s))
               \<or> email saved \<in> set (map email (users s))
            then Inl (MongoServerError 11000)
            else Inr (saved, s\<lparr>users := users s @ [saved]\<rparr>)))"

text \<open>The \<open>user\<close> object of the replies of \<open>/register\<close> and \<open>/login\<close>, and the replies.\<close>

record UserJson =
  json_id :: ObjectId
  json_email :: string
  json_type :: string
  json_status :: string
  json_profile :: Profile
  json_data :: "string \<rightharpoonup> string"
  json_lastLogin :: "Date option"
  json_emailVerified :: bool
  json_createdAt :: Date

record AuthReply =
  reply_user :: UserJson
  reply_token :: string

definition registered_json :: "User \<Rightarrow> UserJson" where
  "registered_json u =
     \<lparr>json_id = user_id u, json_email = email u, json_type = user_type u,
      json_status = user_status u, json_profile = profile u, json_data = data u,
      json_lastLogin = None, json_emailVerified = emailVerified u,
      json_createdAt = user_createdAt u\<rparr>"

text \<open>The counters of a registration: \<open>totalUsers\<close>, and the one of the type.\<close>

definition count_user :: "string \<Rightarrow> Stats \<Rightarrow> Stats" where
  "count_user ty st =
     (let st1 = st\<lparr>totalUsers := totalUsers st + 1\<rparr> in
      if ty = ''donor'' then st1\<lparr>totalDonors := totalDonors st1 + 1\<rparr>
      else if ty = ''hospital'' then st1\<lparr>totalHospitals := totalHospitals st1 + 1\<rparr>
      else if ty = ''patient'' then st1\<lparr>totalPatients := totalPatients st1 + 1\<rparr>
      else st1)"

text \<open>
  The handler. \<open>hash\<close> is bcrypt's digest and \<open>sign\<close> the token \<open>jwt.sign\<close> makes for the
  saved user at this time. The checks are in the source's order; what is thrown is
  answered with 400 for a duplicate key or a validation error and with 500 otherwise.
\<close>

definition register_error :: "error \<Rightarrow> nat" where
  "register_error e =
     (case e of MongoServerError c \<Rightarrow> if c = 11000 then 400 else 500
      | ValidationError ps \<Rightarrow> 400
      | Error m \<Rightarrow> 500
      | TypeError m \<Rightarrow> 500)"

definition router_post_register ::
  "(string \<Rightarrow> string) \<Rightarrow> (User \<Rightarrow> Date \<Rightarrow> string) \<Rightarrow> RegisterBody \<Rightarrow> ObjectId \<Rightarrow> Date \<Rightarrow> bool
     \<Rightarrow> Store \<Rightarrow> AuthReply response \<times> Store" where
  "router_post_register hash sign body newId now stats_ok s =
     (case reg_email body of
        None \<Rightarrow> (ErrorJson 500 (TypeError ''Cannot read properties of undefined''), s)
      | Some em \<Rightarrow>
          if findOne_email (toLowerCase em) (users s) \<noteq> None
          then (ErrorJson 400 (Error ''Account already exists with this email address''), s)
          else if \<not> truthy (reg_type body) \<or> \<not> truthy (reg_name body) \<or> \<not> truthy (reg_email body)
                  \<or> \<not> truthy (reg_password body) \<or> \<not> truthy (reg_phone body)
          then (ErrorJson 400
                  (Error ''Missing required fields: type, name, email, phone, password''), s)
          else
            (case (reg_type body, reg_name body, reg_phone body, reg_password body) of
               (Some ty, Some nm, Some ph, Some pw) \<Rightarrow>
                 if \<not> regex_test emailRegex em
                 then (ErrorJson 400 (Error ''Please enter a valid email address''), s)
                 else if \<not> regex_test phoneRegex ph
                 then (ErrorJson 400 (Error ''Phone number must be exactly 10 digits''), s)
                 else if length pw < 8
                 then (ErrorJson 400 (Error ''Password must be at least 8 characters long''), s)
                 else if ty = ''hospital'' \<and> \<not> truthy (reg_address body)
                 then (ErrorJson 400 (Error ''Address is required for hospital registration''), s)
                 else if ty = ''donor'' \<and> \<not> truthy (reg_bloodGroup body)
                 then (ErrorJson 400 (Error ''Blood group is required for donor registration''), s)
                 else if ty = ''donor'' \<and> \<not> enum_ok bloodType_enum (reg_bloodGroup body)
                 then (ErrorJson 400 (Error ''Invalid blood group. Must be one of: A+, A-, B+, B-, AB+, AB-, O+, O-''), s)
                 else
                   (case insert_user hash now (new_User body ty nm em ph pw newId now) s of
                      Inl e \<Rightarrow> (ErrorJson (register_error e) e, s)
                    | Inr (user, s1) \<Rightarrow>
                        (let st = (case stats_findOne s1 of None \<Rightarrow> new_Stats now | Some x \<Rightarrow> x)
                         in case stats_save stats_ok now (count_user (user_type user) st) s1 of
                              Inl e \<Rightarrow> (ErrorJson (register_error e) e, s1)
                            | Inr s2 \<Rightarrow>
                                (Json 201 \<lparr>reply_user = registered_json user,
                                           reply_token = sign user now\<rparr>, s2)))
             | _ \<Rightarrow> (ErrorJson 400
                      (Error ''Missing required fields: type, name, email, phone, password''), s)))"

subsection \<open>POST /login\<close>

record LoginBody =
  login_email :: "string option"
  login_password :: "string option"
  login_type :: "string option"

text \<open>
  \<open>user.save()\<close> of a user read from the store whose \<open>lastLogin\<close> was set: validation,
  the two hooks (the password is not modified), the write.
\<close>

definition save_user :: "(string \<Rightarrow> string) \<Rightarrow> Date \<Rightarrow> User \<Rightarrow> error + User" where
  "save_user hash now u =
     (if user_invalid_paths u \<noteq> [] then Inl (ValidationError (user_invalid_paths u))
      else Inr (hash_password hash False (populate_profile now u)))"

definition login_json :: "User \<Rightarrow> UserJson" where
  "login_json u =
     \<lparr>json_id = user_id u, json_email = email u, json_type = user_type u,
      json_status = user_status u, json_profile = profile u, json_data = data u,
      json_lastLogin = lastLogin u, json_emailVerified = emailVerified u,
      json_createdAt = user_createdAt u\<rparr>"

text \<open>
  The handler. \<open>compare\<close> is \<open>bcrypt.compare\<close>. After \<open>resetLoginAttempts\<close> the handler's
  document still holds the attempts it read; \<open>save()\<close> writes the paths the handler
  and the hooks may have changed (\<open>lastLogin\<close>, \<open>profile\<close>, \<open>updatedAt\<close>) over the stored
  document. A \<open>Date\<close> object is truthy, so \<open>lockUntil && ...\<close> tests that the path is set.
\<close>

definition router_post_login ::
  "(string \<Rightarrow> string) \<Rightarrow> (string \<Rightarrow> string \<Rightarrow> bool) \<Rightarrow> (User \<Rightarrow> Date \<Rightarrow> string) \<Rightarrow> LoginBody \<Rightarrow> Date
     \<Rightarrow> Store \<Rightarrow> AuthReply response \<times> Store" where
  "router_post_login hash compare sign body now s =
     (if \<not> truthy (login_email body) \<or> \<not> truthy (login_password body)
         \<or> \<not> truthy (login_type body)
      then (ErrorJson 400 (Error ''Missing required fields: email, password, type''), s)
      else
        (case (login_email body, login_password body, login_type body) of
           (Some em, Some pw, Some ty) \<Rightarrow>
             (case findOne_email_type (toLowerCase em) (toLowerCase ty) (users s) of
                None \<Rightarrow> (ErrorJson 400 (Error ''Invalid login credentials''), s)
              | Some user \<Rightarrow>
                  if isLocked now user
                  then (ErrorJson 423 (Error ''Account is temporarily locked due to too many failed login attempts. Please try again later.''), s)
                  else if user_status user = ''deactivated''
                  then (ErrorJson 403 (Error ''Account has been deactivated. Please contact support.''), s)
                  else if \<not> comparePassword compare user pw
                  then (ErrorJson 400 (Error ''Invalid login credentials''),
                        s\<lparr>users := update_user (incLoginAttempts now user) (users s)\<rparr>)
                  else
                    (let stored = (if loginAttempts user > 0 then resetLoginAttempts now user
                                   else user)
                     in case save_user hash now (user\<lparr>lastLogin := Some now\<rparr>) of
                          Inl e \<Rightarrow>
                            (ErrorJson 500 e, s\<lparr>users := update_user stored (users s)\<rparr>)
                        | Inr saved \<Rightarrow>
                            (Json 200 \<lparr>reply_user = login_json saved,
                                       reply_token = sign saved now\<rparr>,
                             s\<lparr>users := update_user
                                  (stored\<lparr>lastLogin := lastLogin saved,
                                          profile := profile saved,
                                          user_updatedAt := user_updatedAt saved\<rparr>)
                                  (users s)\<rparr>)))
         | _ \<Rightarrow> (ErrorJson 400 (Error ''Missing required fields: email, password, type''), s)))"

section \<open>What the properties speak of\<close>

text \<open>The hospital identities in an entry's rejections, in order.\<close>

definition rejecting_hospitals :: "('d, 'z) Entry_scheme \<Rightarrow> ObjectId list" where
  "rejecting_hospitals e = map rej_hospitalId (rejectedByHospitals e)"

text \<open>An entry's status and assigned hospital.\<close>

definition status_and_hospital :: "('d, 'z) Entry_scheme \<Rightarrow> string \<times> ObjectId option" where
  "status_and_hospital e = (status e, hospitalId e)"

section \<open>Example callers and calls\<close>

definition example_user :: "ObjectId \<Rightarrow> string \<Rightarrow> string \<Rightarrow> User" where
  "example_user i ty nm =
     \<lparr>user_id = i, email = nm @ ''@lifelink.org'', password = Some ''$2a$12$hash'',
      googleId = None, user_type = ty, user_status = ''active'',
      profile = \<lparr>name = Some nm, phone = Some ''0123456789'', address = None,
                 bloodGroup = None, dateOfBirth = None, gender = None\<rparr>,
      data = Map.empty, lastLogin = None, loginAttempts = 0, accountLocked = False,
      lockUntil = None, emailVerified = False, passwordResetToken = None,
      passwordResetExpires = None, user_createdAt = 0, user_updatedAt = 0\<rparr>"

definition status_body :: "string \<Rightarrow> PatchBody" where
  "status_body st = \<lparr>body_status = Some st, body_rejectionReason = None, body_patientId = None\<rparr>"

definition reject_body :: PatchBody where
  "reject_body = \<lparr>body_status = Some ''rejected'', body_rejectionReason = Some ''no stock'',
      body_patientId = None\<rparr>"


text \<open>A pending donation and a pending request, as the two \<open>POST\<close> handlers store them.\<close>

definition example_donation :: Donation where
  "example_donation =
     pre_save 10 True
       (new_donation (example_user ''d1'' ''donor'' ''dee'')
          \<lparr>body_type = Some ''blood'', body_details = None\<rparr> ''a1'' 10)"

definition example_request :: Request where
  "example_request =
     pre_save 40 True
       (new_request (example_user ''p1'' ''patient'' ''pat'')
          \<lparr>body_type = Some ''bed'', body_details = None\<rparr> ''b1'' 40)"

text \<open>A patient asks for a bed and the hospital \<open>h1\<close> approves the request.\<close>

definition approved_by_h1 :: "call list" where
  "approved_by_h1 =
     [PostRequest (example_user ''p1'' ''patient'' ''pat'')
        \<lparr>body_type = Some ''bed'', body_details = None\<rparr> ''b1'' 40 True,
      PatchRequest (example_user ''h1'' ''hospital'' ''hope'') ''b1'' (status_body ''approved'') 50]"

text \<open>A donor offers blood and the hospital \<open>h1\<close> approves the donation.\<close>

definition donation_approved_by_h1 :: "call list" where
  "donation_approved_by_h1 =
     [PostDonation (example_user ''d1'' ''donor'' ''dee'')
        \<lparr>body_type = Some ''blood'', body_details = None\<rparr> ''a1'' 10 True,
      PatchDonation (example_user ''h1'' ''hospital'' ''hope'') ''a1'' (status_body ''approved'') 20]"

text \<open>A donor offers blood and the hospital \<open>h1\<close> completes the pending donation at once.\<close>

definition completed_unapproved :: "call list" where
  "completed_unapproved =
     [PostDonation (example_user ''d1'' ''donor'' ''dee'')
        \<lparr>body_type = Some ''blood'', body_details = None\<rparr> ''a1'' 10 True,
      PatchDonation (example_user ''h1'' ''hospital'' ''hope'') ''a1'' (status_body ''completed'') 20]"

text \<open>
  A patient asks for a bed; the hospital \<open>h1\<close> approves and completes the request; then
  the hospital \<open>h2\<close> approves it.
\<close>

definition completed_by_h1 :: "call list" where
  "completed_by_h1 =
     approved_by_h1 @
     [PatchRequest (example_user ''h1'' ''hospital'' ''hope'') ''b1'' (status_body ''completed'') 60]"

definition reapproved_by_h2 :: "call list" where
  "reapproved_by_h2 =
     completed_by_h1 @
     [PatchRequest (example_user ''h2'' ''hospital'' ''mercy'') ''b1'' (status_body ''approved'') 70]"

text \<open>The example donation and request, completed by \<open>h1\<close> at time 60.\<close>

definition completed_donation :: Donation where
  "completed_donation =
     example_donation\<lparr>status := ''completed'', hospitalId := Some ''h1'',
       hospitalName := Some ''hope'', approvedBy := Some ''h1'', updatedAt := 60,
       approvedAt := Some 50, completedAt := Some 60\<rparr>"

definition completed_request :: Request where
  "completed_request =
     example_request\<lparr>status := ''completed'', hospitalId := Some ''h1'',
       hospitalName := Some ''hope'', approvedBy := Some ''h1'', updatedAt := 60,
       approvedAt := Some 50, completedAt := Some 60\<rparr>"

text \<open>A donor offers blood.\<close>

definition one_donation :: "call list" where
  "one_donation =
     [PostDonation (example_user ''d1'' ''donor'' ''dee'')
        \<lparr>body_type = Some ''blood'', body_details = None\<rparr> ''a1'' 10 True]"

text \<open>
  A donor offers blood; the hospital \<open>h1\<close> rejects the donation and the hospital \<open>h2\<close>
  approves it.
\<close>

definition rejected_then_approved :: "call list" where
  "rejected_then_approved =
     one_donation @
     [PatchDonation (example_user ''h1'' ''hospital'' ''hope'') ''a1'' reject_body 20,
      PatchDonation (example_user ''h2'' ''hospital'' ''mercy'') ''a1'' (status_body ''approved'') 30]"

text \<open>
  A stand-in for bcrypt in examples (any digest will do there), a token, and a hospital
  that registers.
\<close>

definition example_hash :: "string \<Rightarrow> string" where
  "example_hash p = ''$2a$12$'' @ rev p"

definition example_compare :: "string \<Rightarrow> string \<Rightarrow> bool" where
  "example_compare candidate h = (h = example_hash candidate)"

definition example_sign :: "User \<Rightarrow> Date \<Rightarrow> string" where
  "example_sign u t = ''token-for-'' @ user_id u"

definition hospital_registration :: RegisterBody where
  "hospital_registration =
     \<lparr>reg_type = Some ''hospital'', reg_name = Some ''Hope Clinic'',
      reg_email = Some ''Desk@Hope.org'', reg_phone = Some ''0123456789'',
      reg_password = Some ''s3cret-pw'', reg_address = Some ''1 Main St'',
      reg_bloodGroup = None, reg_dateOfBirth = None, reg_gender = None\<rparr>"

definition hospital_login :: LoginBody where
  "hospital_login =
     \<lparr>login_email = Some ''desk@hope.org'', login_password = Some ''s3cret-pw'',
      login_type = Some ''hospital''\<rparr>"

text \<open>A store whose Stats document exists, with every counter at zero.\<close>

definition store_with_stats :: Store where
  "store_with_stats = empty_store\<lparr>stats := [new_Stats 0]\<rparr>"

definition bed_request :: "RequestDetails CreateBody" where
  "bed_request = \<lparr>body_type = Some ''bed'', body_details = None\<rparr>"



section \<open>How the handlers change the store\<close>

lemma pre_save_frame:
  "rejectedByHospitals (pre_save now m e) = rejectedByHospitals e"
  "status (pre_save now m e) = status e"
  "hospitalId (pre_save now m e) = hospitalId e"
  "hospitalName (pre_save now m e) = hospitalName e"
  "approvedBy (pre_save now m e) = approvedBy e"
  "patientId (pre_save now m e) = patientId e"
  "doc_id (pre_save now m e) = doc_id e"
  "type (pre_save now m e) = type e"
  "details (pre_save now m e) = details e"
  "createdAt (pre_save now m e) = createdAt e"
  "updatedAt (pre_save now m e) = now"
  "Entry.more (pre_save now m e) = Entry.more e"
  by (simp_all add: pre_save_def Let_def)

lemma pre_save_unmodified: "pre_save now False e = e\<lparr>updatedAt := now\<rparr>"
  by (simp add: pre_save_def)

lemma invalid_paths_pre_save:
  "donation_invalid_paths (pre_save now m d) = donation_invalid_paths d"
  "request_invalid_paths (pre_save now m r) = request_invalid_paths r"
  by (simp_all add: donation_invalid_paths_def request_invalid_paths_def pre_save_frame)


lemma findById_Some: "findById i docs = Some d \<Longrightarrow> d \<in> set docs \<and> doc_id d = i"
  by (induction docs) (auto simp: findById_def split: if_splits)

lemma post_donations_effect:
  "donations (snd (router_post_donations u b i t ok s)) = donations s
   \<or> (donation_invalid_paths (new_donation u b i t) = []
      \<and> donations (snd (router_post_donations u b i t ok s))
          = donations s @ [pre_save t True (new_donation u b i t)])"
  "requests (snd (router_post_donations u b i t ok s)) = requests s"
  by (auto simp: router_post_donations_def insert_donation_def insert_doc_def stats_save_def
        Let_def split: if_splits sum.splits option.splits prod.splits)

lemma patch_donations_effect:
  "donations (snd (router_patch_donations u i b t s)) = donations s
   \<or> (\<exists>d d'. d \<in> set (donations s) \<and> patch_donation u b t d = Inr d'
        \<and> donations (snd (router_patch_donations u i b t s)) = update_doc d' (donations s))"
  "requests (snd (router_patch_donations u i b t s)) = requests s"
  by (auto simp: router_patch_donations_def 
        split: if_splits sum.splits option.splits dest!: findById_Some)

lemma delete_donations_effect:
  "set (donations (snd (router_delete_donations u i s))) \<subseteq> set (donations s)"
  "requests (snd (router_delete_donations u i s)) = requests s"
  by (auto simp: router_delete_donations_def findByIdAndDelete_def
        split: if_splits sum.splits option.splits)

lemma post_requests_effect:
  "requests (snd (router_post_requests u b i t ok s)) = requests s
   \<or> (request_invalid_paths (new_request u b i t) = []
      \<and> requests (snd (router_post_requests u b i t ok s))
          = requests s @ [pre_save t True (new_request u b i t)])"
  "donations (snd (router_post_requests u b i t ok s)) = donations s"
  by (auto simp: router_post_requests_def insert_request_def insert_doc_def stats_save_def
        Let_def split: if_splits sum.splits option.splits prod.splits)

lemma patch_requests_effect:
  "requests (snd (router_patch_requests u i b t s)) = requests s
   \<or> (\<exists>d d'. d \<in> set (requests s) \<and> patch_request u b t d = Inr d'
        \<and> user_type u \<in> {''hospital'', ''admin''}
        \<and> requests (snd (router_patch_requests u i b t s)) = update_doc d' (requests s))"
  "donations (snd (router_patch_requests u i b t s)) = donations s"
  by (auto simp: router_patch_requests_def 
        split: if_splits sum.splits option.splits dest!: findById_Some)

lemma delete_requests_effect:
  "set (requests (snd (router_delete_requests u i s))) \<subseteq> set (requests s)"
  "donations (snd (router_delete_requests u i s)) = donations s"
  by (auto simp: router_delete_requests_def findByIdAndDelete_def
        split: if_splits sum.splits option.splits)

lemma set_update_doc: "set (update_doc d ds) \<subseteq> insert d (set ds)"
  by (auto simp: update_doc_def)

lemma donations_step:
  assumes inv: "\<forall>d\<in>set (donations s). P d"
    and patch: "\<And>u b t d d'. P d \<Longrightarrow> patch_donation u b t d = Inr d' \<Longrightarrow> P d'"
    and new: "\<And>u b i t. donation_invalid_paths (new_donation u b i t) = []
                 \<Longrightarrow> P (pre_save t True (new_donation u b i t))"
  shows "\<forall>d\<in>set (donations (step c s)). P d"
proof (cases c)
  case (PostDonation u b i t ok)
  with post_donations_effect(1)[of u b i t ok s] inv new show ?thesis by auto
next
  case (PatchDonation u i b t)
  from patch_donations_effect(1)[of u i b t s]
  consider "donations (step c s) = donations s"
    | d d' where "d \<in> set (donations s)" "patch_donation u b t d = Inr d'"
        "donations (step c s) = update_doc d' (donations s)"
    using PatchDonation by auto
  then show ?thesis
  proof cases
    case 1
    then show ?thesis using inv by simp
  next
    case 2
    have "P d'" using inv 2(1,2) patch by blast
    then show ?thesis using inv 2(3) set_update_doc[of d' "donations s"] by auto
  qed
next
  case (DeleteDonation u i)
  with delete_donations_effect(1)[of u i s] inv show ?thesis by auto
next
  case (PostRequest u b i t ok)
  with post_requests_effect(2)[of u b i t ok s] inv show ?thesis by simp
next
  case (PatchRequest u i b t)
  with patch_requests_effect(2)[of u i b t s] inv show ?thesis by simp
next
  case (DeleteRequest u i)
  with delete_requests_effect(2)[of u i s] inv show ?thesis by simp
qed

lemma requests_step:
  assumes inv: "\<forall>r\<in>set (requests s). P r"
    and patch: "\<And>u b t r r'. P r \<Longrightarrow> user_type u \<in> {''hospital'', ''admin''}
                  \<Longrightarrow> patch_request u b t r = Inr r' \<Longrightarrow> P r'"
    and new: "\<And>u b i t. request_invalid_paths (new_request u b i t) = []
                 \<Longrightarrow> P (pre_save t True (new_request u b i t))"
  shows "\<forall>r\<in>set (requests (step c s)). P r"
proof (cases c)
  case (PostDonation u b i t ok)
  with post_donations_effect(2)[of u b i t ok s] inv show ?thesis by simp
next
  case (PatchDonation u i b t)
  with patch_donations_effect(2)[of u i b t s] inv show ?thesis by simp
next
  case (DeleteDonation u i)
  with delete_donations_effect(2)[of u i s] inv show ?thesis by simp
next
  case (PostRequest u b i t ok)
  with post_requests_effect(1)[of u b i t ok s] inv new show ?thesis by auto
next
  case (PatchRequest u i b t)
  from patch_requests_effect(1)[of u i b t s]
  consider "requests (step c s) = requests s"
    | d d' where "d \<in> set (requests s)" "patch_request u b t d = Inr d'"
        "user_type u \<in> {''hospital'', ''admin''}"
        "requests (step c s) = update_doc d' (requests s)"
    using PatchRequest by auto
  then show ?thesis
  proof cases
    case 1
    then show ?thesis using inv by simp
  next
    case 2
    have "P d'" using inv 2(1,2,3) patch by blast
    then show ?thesis using inv 2(4) set_update_doc[of d' "requests s"] by auto
  qed
next
  case (DeleteRequest u i)
  with delete_requests_effect(1)[of u i s] inv show ?thesis by auto
qed

lemma donations_run:
  assumes inv: "\<forall>d\<in>set (donations s). P d"
    and patch: "\<And>u b t d d'. P d \<Longrightarrow> patch_donation u b t d = Inr d' \<Longrightarrow> P d'"
    and new: "\<And>u b i t. donation_invalid_paths (new_donation u b i t) = []
                 \<Longrightarrow> P (pre_save t True (new_donation u b i t))"
  shows "\<forall>d\<in>set (donations (run cs s)). P d"
  using inv unfolding run_def
proof (induction cs arbitrary: s)
  case Nil
  then show ?case by simp
next
  case (Cons c cs)
  have "\<forall>d\<in>set (donations (step c s)). P d"
    using Cons.prems patch new by (rule donations_step)
  then show ?case using Cons.IH by simp
qed

lemma requests_run:
  assumes inv: "\<forall>r\<in>set (requests s). P r"
    and patch: "\<And>u b t r r'. P r \<Longrightarrow> user_type u \<in> {''hospital'', ''admin''}
                  \<Longrightarrow> patch_request u b t r = Inr r' \<Longrightarrow> P r'"
    and new: "\<And>u b i t. request_invalid_paths (new_request u b i t) = []
                 \<Longrightarrow> P (pre_save t True (new_request u b i t))"
  shows "\<forall>r\<in>set (requests (run cs s)). P r"
  using inv unfolding run_def
proof (induction cs arbitrary: s)
  case Nil
  then show ?case by simp
next
  case (Cons c cs)
  have "\<forall>r\<in>set (requests (step c s)). P r"
    using Cons.prems patch new by (rule requests_step)
  then show ?case using Cons.IH by simp
qed

section \<open>Evaluating the handlers on concrete calls\<close>

lemmas eval_defs =
  run_def empty_store_def example_user_def status_body_def reject_body_def
  router_post_donations_def router_patch_donations_def router_delete_donations_def
  router_post_requests_def router_patch_requests_def router_delete_requests_def
  insert_donation_def insert_request_def new_donation_def new_request_def insert_doc_def
  update_doc_def findById_def findByIdAndDelete_def patch_donation_def patch_request_def
  save_donation_def save_request_def pre_save_def donation_invalid_paths_def
  request_invalid_paths_def failing_def enum_ok_def required_enum_ok_def
  donation_details_defaults_def request_details_defaults_def no_donation_details_def
  no_request_details_def opt_contactDetails_def opt_contactPreference_def js_or_def truthy_def
  stats_findOne_def stats_save_def new_Stats_def existingRejection_def new_rejection_def
  caller_name_def toString_def donation_type_enum_def request_type_enum_def
  donation_status_enum_def request_status_enum_def bloodType_enum_def medicineType_enum_def
  urgency_enum_def bedType_enum_def doctorSpecialty_enum_def Let_def

section \<open>Rejections\<close>

lemma patch_donation_valid:
  "patch_donation u b t d = Inr d' \<Longrightarrow> donation_invalid_paths d' = []"
  by (auto simp: patch_donation_def save_donation_def Let_def invalid_paths_pre_save
      split: if_splits option.splits sum.splits)

lemma patch_request_valid:
  "patch_request u b t r = Inr r' \<Longrightarrow> request_invalid_paths r' = []"
  by (auto simp: patch_request_def save_request_def Let_def invalid_paths_pre_save
      split: if_splits option.splits sum.splits)











lemma failing_Nil: "(failing checks = []) = (\<forall>c\<in>set checks. snd c)"
  by (induction checks) (auto simp: failing_def)

lemma donation_valid_iff:
  "(donation_invalid_paths d = []) =
     (required_enum_ok donation_type_enum (type d)
      \<and> enum_ok bloodType_enum (d_bloodType (details d))
      \<and> enum_ok medicineType_enum (d_medicineType (details d))
      \<and> enum_ok urgency_enum (d_urgency (details d))
      \<and> status d \<in> set donation_status_enum)"
  by (simp add: donation_invalid_paths_def failing_Nil)

lemma request_valid_iff:
  "(request_invalid_paths r = []) =
     (patientId r \<noteq> None
      \<and> required_enum_ok request_type_enum (type r)
      \<and> enum_ok bloodType_enum (r_bloodType (details r))
      \<and> enum_ok medicineType_enum (r_medicineType (details r))
      \<and> enum_ok bedType_enum (bedType (details r))
      \<and> enum_ok doctorSpecialty_enum (doctorSpecialty (details r))
      \<and> enum_ok urgency_enum (r_urgency (details r))
      \<and> status r \<in> set request_status_enum)"
  by (simp add: request_invalid_paths_def failing_Nil)

text \<open>
  C2. A reject by a hospital never changes the entry's \<open>status\<close>, \<open>hospitalId\<close>,
  \<open>hospitalName\<close> or \<open>approvedBy\<close>: the saved entry is the one read, with the new
  \<open>rejectedByHospitals\<close> and \<open>updatedAt\<close> (and, for a donation, the \<open>patientId\<close> of the
  body when it carries a truthy one). On a valid entry the reject succeeds.
\<close>

theorem reject_changes_rejections_only:
  "(user_type u = ''hospital'' \<and> body_status b = Some ''rejected'' \<longrightarrow>
      (donation_invalid_paths d = [] \<longrightarrow> (\<exists>d'. patch_donation u b t d = Inr d')) \<and>
      (\<forall>d'. patch_donation u b t d = Inr d' \<longrightarrow>
         status d' = status d \<and> hospitalId d' = hospitalId d \<and>
         hospitalName d' = hospitalName d \<and> approvedBy d' = approvedBy d \<and>
         d' = d\<lparr>rejectedByHospitals := rejectedByHospitals d', updatedAt := t,
                 patientId := (if truthy (body_patientId b) then body_patientId b else patientId d)\<rparr>))
   \<and> (body_status b = Some ''rejected'' \<longrightarrow>
      (request_invalid_paths r = [] \<longrightarrow> (\<exists>r'. patch_request u b t r = Inr r')) \<and>
      (\<forall>r'. patch_request u b t r = Inr r' \<longrightarrow>
         status r' = status r \<and> hospitalId r' = hospitalId r \<and>
         hospitalName r' = hospitalName r \<and> approvedBy r' = approvedBy r \<and>
         r' = r\<lparr>rejectedByHospitals := rejectedByHospitals r', updatedAt := t\<rparr>))"
proof -
  have inv1: "\<And>x. donation_invalid_paths (d\<lparr>rejectedByHospitals := x\<rparr>) = donation_invalid_paths d"
    "\<And>x. donation_invalid_paths (d\<lparr>rejectedByHospitals := x, patientId := p\<rparr>) = donation_invalid_paths d"
    "donation_invalid_paths (d\<lparr>patientId := p\<rparr>) = donation_invalid_paths d" for p
    by (simp_all add: donation_invalid_paths_def)
  have inv2: "\<And>x. request_invalid_paths (r\<lparr>rejectedByHospitals := x\<rparr>) = request_invalid_paths r"
    by (simp_all add: request_invalid_paths_def)
  have A: "\<exists>d'. patch_donation u b t d = Inr d'"
    if "user_type u = ''hospital''" "body_status b = Some ''rejected''" "donation_invalid_paths d = []"
    using that by (simp add: patch_donation_def save_donation_def inv1 split: option.splits)
  have B: "status d' = status d \<and> hospitalId d' = hospitalId d \<and>
         hospitalName d' = hospitalName d \<and> approvedBy d' = approvedBy d \<and>
         d' = d\<lparr>rejectedByHospitals := rejectedByHospitals d', updatedAt := t,
                 patientId := (if truthy (body_patientId b) then body_patientId b else patientId d)\<rparr>"
    if "user_type u = ''hospital''" "body_status b = Some ''rejected''" "patch_donation u b t d = Inr d'" for d'
    using that by (auto simp: patch_donation_def save_donation_def pre_save_unmodified
        split: option.splits if_splits)
  have C: "\<exists>r'. patch_request u b t r = Inr r'"
    if "body_status b = Some ''rejected''" "request_invalid_paths r = []"
    using that by (simp add: patch_request_def save_request_def inv2 split: option.splits)
  have D: "status r' = status r \<and> hospitalId r' = hospitalId r \<and>
         hospitalName r' = hospitalName r \<and> approvedBy r' = approvedBy r \<and>
         r' = r\<lparr>rejectedByHospitals := rejectedByHospitals r', updatedAt := t\<rparr>"
    if "body_status b = Some ''rejected''" "patch_request u b t r = Inr r'" for r'
    using that by (auto simp: patch_request_def save_request_def pre_save_unmodified
        split: option.splits if_splits)
  show ?thesis using A B C D by blast
qed


theorem reject_changes_rejections_only_witness:
  "status example_donation = ''pending'' \<and>
   (\<exists>d'. patch_donation (example_user ''h1'' ''hospital'' ''hope'') reject_body 20 example_donation
            = Inr d' \<and> status d' = ''pending'' \<and> hospitalId d' = None
          \<and> rejecting_hospitals d' = [''h1''])
   \<and> status example_request = ''pending'' \<and>
   (\<exists>r'. patch_request (example_user ''h1'' ''hospital'' ''hope'') reject_body 50 example_request
            = Inr r' \<and> status r' = ''pending'' \<and> hospitalId r' = None
          \<and> rejecting_hospitals r' = [''h1''])"
proof -
  let ?h = "example_user ''h1'' ''hospital'' ''hope''"
  have h: "user_type ?h = ''hospital''" "body_status reject_body = Some ''rejected''"
    by (simp_all add: example_user_def reject_body_def)
  have v: "donation_invalid_paths example_donation = []"
    "request_invalid_paths example_request = []"
    by (simp_all add: example_donation_def example_request_def eval_defs)
  have s: "status example_donation = ''pending''" "hospitalId example_donation = None"
    "status example_request = ''pending''" "hospitalId example_request = None"
    by (simp_all add: example_donation_def example_request_def eval_defs)
  note inst = reject_changes_rejections_only[of ?h reject_body example_donation 20 example_request]
  from inst h v obtain d' where
    d: "patch_donation ?h reject_body 20 example_donation = Inr d'" by blast
  with inst h have d1: "status d' = status example_donation"
    "hospitalId d' = hospitalId example_donation" by blast+
  have d2: "rejecting_hospitals d' = [''h1'']"
    using d by (auto simp: example_donation_def eval_defs rejecting_hospitals_def)
  note inst' = reject_changes_rejections_only[of ?h reject_body example_donation 50 example_request]
  from inst' h v obtain r' where
    r: "patch_request ?h reject_body 50 example_request = Inr r'" by blast
  with inst' h have r1: "status r' = status example_request"
    "hospitalId r' = hospitalId example_request" by blast+
  have r2: "rejecting_hospitals r' = [''h1'']"
    using r by (auto simp: example_request_def eval_defs rejecting_hospitals_def)
  show ?thesis using s d d1 d2 r r1 r2 by simp
qed

section \<open>Completing a request\<close>

text \<open>
  C9. A status update of a request whose target is \<open>completed\<close> (the only accepted target
  that is neither \<open>approved\<close> nor \<open>rejected\<close>) by a hospital or an admin succeeds on a valid
  request and overwrites \<open>hospitalId\<close>, \<open>hospitalName\<close> and \<open>approvedBy\<close> with the caller,
  whoever held them before.
\<close>

theorem completing_request_reassigns_hospital:
  "user_type u \<in> {''hospital'', ''admin''} \<and> findById i (requests s) = Some r
     \<and> request_invalid_paths r = [] \<and> body_status b = Some ''completed'' \<longrightarrow>
   (\<exists>r'. patch_request u b t r = Inr r' \<and>
      router_patch_requests u i b t s =
        (Json 200 \<lparr>patched_id = doc_id r, patched_status = ''completed'',
                   patched_hospitalName = caller_name u, patched_updatedAt = t\<rparr>,
         s\<lparr>requests := update_doc r' (requests s)\<rparr>) \<and>
      status r' = ''completed'' \<and> hospitalId r' = Some (user_id u) \<and>
      hospitalName r' = caller_name u \<and> approvedBy r' = Some (user_id u))"
proof
  assume a: "user_type u \<in> {''hospital'', ''admin''} \<and> findById i (requests s) = Some r
     \<and> request_invalid_paths r = [] \<and> body_status b = Some ''completed''"
  let ?r = "r\<lparr>status := ''completed'', hospitalId := Some (user_id u),
               hospitalName := caller_name u, approvedBy := Some (user_id u)\<rparr>"
  have valid: "request_invalid_paths ?r = []"
    using a by (simp add: request_valid_iff request_status_enum_def)
  have p: "patch_request u b t r = Inr (pre_save t (''completed'' \<noteq> status r) ?r)"
    using a valid by (simp add: patch_request_def save_request_def)
  show "\<exists>r'. patch_request u b t r = Inr r' \<and>
      router_patch_requests u i b t s =
        (Json 200 \<lparr>patched_id = doc_id r, patched_status = ''completed'',
                   patched_hospitalName = caller_name u, patched_updatedAt = t\<rparr>,
         s\<lparr>requests := update_doc r' (requests s)\<rparr>) \<and>
      status r' = ''completed'' \<and> hospitalId r' = Some (user_id u) \<and>
      hospitalName r' = caller_name u \<and> approvedBy r' = Some (user_id u)"
    using a p by (auto simp: router_patch_requests_def pre_save_frame)
qed

theorem completing_request_reassigns_hospital_witness:
  "\<exists>r r'. findById ''b1'' (requests (run approved_by_h1 empty_store)) = Some r
     \<and> hospitalId r = Some ''h1'' \<and> approvedBy r = Some ''h1''
     \<and> patch_request (example_user ''h2'' ''hospital'' ''mercy'') (status_body ''completed'') 60 r
         = Inr r'
     \<and> status r' = ''completed'' \<and> hospitalId r' = Some ''h2''
     \<and> hospitalName r' = Some ''mercy'' \<and> approvedBy r' = Some ''h2''"
proof -
  let ?u = "example_user ''h2'' ''hospital'' ''mercy''"
  let ?s = "run approved_by_h1 empty_store"
  have "\<exists>r. findById ''b1'' (requests ?s) = Some r \<and> hospitalId r = Some ''h1''
          \<and> approvedBy r = Some ''h1'' \<and> request_invalid_paths r = []"
    by (simp add: approved_by_h1_def eval_defs)
  then obtain r where r: "findById ''b1'' (requests ?s) = Some r" "hospitalId r = Some ''h1''"
    "approvedBy r = Some ''h1''" "request_invalid_paths r = []" by blast
  have u: "user_type ?u \<in> {''hospital'', ''admin''}" "user_id ?u = ''h2''"
    "caller_name ?u = Some ''mercy''" "body_status (status_body ''completed'') = Some ''completed''"
    by (simp_all add: example_user_def status_body_def caller_name_def js_or_def truthy_def)
  from completing_request_reassigns_hospital[of ?u "''b1''" ?s r "status_body ''completed''" 60]
    r u
  obtain r' where "patch_request ?u (status_body ''completed'') 60 r = Inr r'"
    "status r' = ''completed''" "hospitalId r' = Some ''h2''"
    "hospitalName r' = Some ''mercy''" "approvedBy r' = Some ''h2''"
    by auto
  with r show ?thesis by blast
qed

section \<open>The assigned hospital and the status\<close>

lemma new_entry_fields:
  "status (new_donation u b i t) = ''pending''" "hospitalId (new_donation u b i t) = None"
  "approvedAt (new_donation u b i t) = None" "completedAt (new_donation u b i t) = None"
  "status (new_request u b' i t) = ''pending''" "hospitalId (new_request u b' i t) = None"
  "approvedAt (new_request u b' i t) = None" "completedAt (new_request u b' i t) = None"
  by (simp_all add: new_donation_def new_request_def Let_def)

lemma patch_donation_assignment:
  assumes "patch_donation u b t d = Inr d'"
    and "hospitalId d \<noteq> None \<longrightarrow> status d \<in> {''approved'', ''completed''}"
    and "status d = ''approved'' \<longrightarrow> hospitalId d \<noteq> None"
  shows "(hospitalId d' \<noteq> None \<longrightarrow> status d' \<in> {''approved'', ''completed''})
       \<and> (status d' = ''approved'' \<longrightarrow> hospitalId d' \<noteq> None)"
  using assms
  by (auto simp: patch_donation_def save_donation_def Let_def pre_save_frame
      donation_valid_iff donation_status_enum_def
      split: if_splits option.splits sum.splits)

lemma patch_request_assignment:
  assumes "patch_request u b t r = Inr r'"
    and "(hospitalId r \<noteq> None) = (status r \<in> {''approved'', ''completed''})"
  shows "(hospitalId r' \<noteq> None) = (status r' \<in> {''approved'', ''completed''})"
  using assms
  by (auto simp: patch_request_def save_request_def Let_def pre_save_frame
      split: if_splits option.splits sum.splits)

text \<open>
  C3, as amended. In every store that calls to the two routers build from the empty one:
  a request has \<open>hospitalId\<close> set if and only if its status is \<open>approved\<close> or \<open>completed\<close>; a
  donation with \<open>hospitalId\<close> set has status \<open>approved\<close> or \<open>completed\<close>, and an approved
  donation has \<open>hospitalId\<close> set. (A donation that a hospital completes keeps the
  \<open>hospitalId\<close> it had, so one completed without an approval has none.)
\<close>

theorem hospital_assigned_when_approved:
  "(\<forall>r\<in>set (requests (run cs empty_store)).
      (hospitalId r \<noteq> None) = (status r \<in> {''approved'', ''completed''}))
   \<and> (\<forall>d\<in>set (donations (run cs empty_store)).
      (hospitalId d \<noteq> None \<longrightarrow> status d \<in> {''approved'', ''completed''})
      \<and> (status d = ''approved'' \<longrightarrow> hospitalId d \<noteq> None))"
proof
  show "\<forall>r\<in>set (requests (run cs empty_store)).
      (hospitalId r \<noteq> None) = (status r \<in> {''approved'', ''completed''})"
  proof (rule requests_run)
    show "\<forall>r\<in>set (requests empty_store).
            (hospitalId r \<noteq> None) = (status r \<in> {''approved'', ''completed''})"
      by (simp add: empty_store_def)
  next
    fix u b t and r r' :: Request
    assume "(hospitalId r \<noteq> None) = (status r \<in> {''approved'', ''completed''})"
      and "patch_request u b t r = Inr r'"
    then show "(hospitalId r' \<noteq> None) = (status r' \<in> {''approved'', ''completed''})"
      using patch_request_assignment by blast
  next
    fix u b i t
    show "(hospitalId (pre_save t True (new_request u b i t)) \<noteq> None)
        = (status (pre_save t True (new_request u b i t)) \<in> {''approved'', ''completed''})"
      by (simp add: pre_save_frame new_entry_fields)
  qed
next
  show "\<forall>d\<in>set (donations (run cs empty_store)).
      (hospitalId d \<noteq> None \<longrightarrow> status d \<in> {''approved'', ''completed''})
      \<and> (status d = ''approved'' \<longrightarrow> hospitalId d \<noteq> None)"
  proof (rule donations_run)
    show "\<forall>d\<in>set (donations empty_store).
      (hospitalId d \<noteq> None \<longrightarrow> status d \<in> {''approved'', ''completed''})
      \<and> (status d = ''approved'' \<longrightarrow> hospitalId d \<noteq> None)"
      by (simp add: empty_store_def)
  next
    fix u b t and d d' :: Donation
    assume "(hospitalId d \<noteq> None \<longrightarrow> status d \<in> {''approved'', ''completed''})
      \<and> (status d = ''approved'' \<longrightarrow> hospitalId d \<noteq> None)"
      and "patch_donation u b t d = Inr d'"
    then show "(hospitalId d' \<noteq> None \<longrightarrow> status d' \<in> {''approved'', ''completed''})
      \<and> (status d' = ''approved'' \<longrightarrow> hospitalId d' \<noteq> None)"
      using patch_donation_assignment by blast
  next
    fix u b i t
    show "(hospitalId (pre_save t True (new_donation u b i t)) \<noteq> None
             \<longrightarrow> status (pre_save t True (new_donation u b i t)) \<in> {''approved'', ''completed''})
      \<and> (status (pre_save t True (new_donation u b i t)) = ''approved''
             \<longrightarrow> hospitalId (pre_save t True (new_donation u b i t)) \<noteq> None)"
      by (simp add: pre_save_frame new_entry_fields)
  qed
qed


theorem hospital_assigned_when_approved_witness:
  "(\<exists>r\<in>set (requests (run approved_by_h1 empty_store)).
      status r = ''approved'' \<and> hospitalId r \<noteq> None)
   \<and> (\<exists>d\<in>set (donations (run donation_approved_by_h1 empty_store)).
      status d = ''approved'' \<and> hospitalId d \<noteq> None)"
proof -
  have "\<exists>r\<in>set (requests (run approved_by_h1 empty_store)). status r = ''approved''"
    by (simp add: approved_by_h1_def eval_defs)
  then obtain r where r: "r \<in> set (requests (run approved_by_h1 empty_store))"
    "status r = ''approved''" by blast
  have "hospitalId r \<noteq> None"
    using hospital_assigned_when_approved[of approved_by_h1] r by simp
  moreover
  have "\<exists>d\<in>set (donations (run donation_approved_by_h1 empty_store)). status d = ''approved''"
    by (simp add: donation_approved_by_h1_def eval_defs)
  then obtain d where d: "d \<in> set (donations (run donation_approved_by_h1 empty_store))"
    "status d = ''approved''" by blast
  have "hospitalId d \<noteq> None"
    using hospital_assigned_when_approved[of donation_approved_by_h1] d by simp
  ultimately show ?thesis using r d by blast
qed

text \<open>
  C3 as stated fails: a hospital's \<open>completed\<close> on a pending donation is accepted and
  leaves a completed donation with no \<open>hospitalId\<close>.
\<close>

theorem completed_donation_without_hospital:
  "map status_and_hospital (donations (run completed_unapproved empty_store))
     = [(''completed'', None)]"
  by (simp add: completed_unapproved_def status_and_hospital_def eval_defs)

section \<open>Leaving a status\<close>

lemma pre_save_completedAt:
  "completedAt e \<noteq> None \<Longrightarrow> completedAt (pre_save t m e) = completedAt e"
  "approvedAt e \<noteq> None \<Longrightarrow> approvedAt (pre_save t m e) = approvedAt e"
  by (auto simp: pre_save_def Let_def)

lemma patch_donation_status:
  assumes "patch_donation u b t d = Inr d'"
  shows "status d' =
     (if user_type u = ''hospital'' \<and> body_status b = Some ''approved'' then ''approved''
      else if user_type u = ''hospital'' \<and> body_status b = Some ''completed'' then ''completed''
      else status d)"
  using assms
  by (auto simp: patch_donation_def save_donation_def Let_def pre_save_frame
      donation_valid_iff donation_status_enum_def
      split: if_splits option.splits sum.splits)

lemma patch_request_status:
  assumes "patch_request u b t r = Inr r'"
  shows "status r' =
     (if body_status b = Some ''approved'' then ''approved''
      else if body_status b = Some ''completed'' then ''completed''
      else status r)"
  using assms
  by (auto simp: patch_request_def save_request_def Let_def pre_save_frame
      split: if_splits option.splits sum.splits)

lemma patch_donation_timestamps:
  assumes "patch_donation u b t d = Inr d'"
  shows "(completedAt d \<noteq> None \<longrightarrow> completedAt d' = completedAt d)
       \<and> (approvedAt d \<noteq> None \<longrightarrow> approvedAt d' = approvedAt d)"
  using assms
  by (auto simp: patch_donation_def save_donation_def Let_def pre_save_completedAt
      split: if_splits option.splits sum.splits)

lemma patch_request_timestamps:
  assumes "patch_request u b t r = Inr r'"
  shows "(completedAt r \<noteq> None \<longrightarrow> completedAt r' = completedAt r)
       \<and> (approvedAt r \<noteq> None \<longrightarrow> approvedAt r' = approvedAt r)"
  using assms
  by (auto simp: patch_request_def save_request_def Let_def pre_save_completedAt
      split: if_splits option.splits sum.splits)

lemma approve_donation_succeeds:
  assumes "user_type u = ''hospital''" "body_status b = Some ''approved''"
    "donation_invalid_paths (d\<lparr>status := ''approved''\<rparr>) = []"
  shows "\<exists>d'. patch_donation u b t d = Inr d' \<and> status d' = ''approved''
            \<and> hospitalId d' = Some (user_id u)"
  using assms
  by (auto simp: patch_donation_def save_donation_def Let_def pre_save_frame
      donation_valid_iff split: option.splits)

lemma approve_request_succeeds:
  assumes "body_status b = Some ''approved''"
    "request_invalid_paths (r\<lparr>status := ''approved''\<rparr>) = []"
  shows "\<exists>r'. patch_request u b t r = Inr r' \<and> status r' = ''approved''
            \<and> hospitalId r' = Some (user_id u)"
  using assms
  by (auto simp: patch_request_def save_request_def Let_def pre_save_frame
      request_valid_iff split: option.splits)

text \<open>
  C4, as amended. No status update checks the status the entry has. From \<open>completed\<close>, a
  successful update leaves the status \<open>completed\<close> unless it is an approve (by a hospital
  for a donation, by a hospital or an admin for a request), which sets it to \<open>approved\<close>;
  \<open>completedAt\<close>, once set, is never changed. An approve succeeds on an entry of any
  status (\<open>completed\<close> and \<open>cancelled\<close> included) whose paths are valid once the status is
  \<open>approved\<close>, and assigns the entry to the caller.
\<close>

theorem completed_left_only_by_approve:
  "(status d = ''completed'' \<and> patch_donation u b t d = Inr d' \<longrightarrow>
      status d' = (if user_type u = ''hospital'' \<and> body_status b = Some ''approved''
                   then ''approved'' else ''completed''))
   \<and> (status r = ''completed'' \<and> patch_request u b t r = Inr r' \<longrightarrow>
      status r' = (if body_status b = Some ''approved'' then ''approved'' else ''completed''))
   \<and> (completedAt d \<noteq> None \<and> patch_donation u b t d = Inr d' \<longrightarrow>
      completedAt d' = completedAt d)
   \<and> (completedAt r \<noteq> None \<and> patch_request u b t r = Inr r' \<longrightarrow>
      completedAt r' = completedAt r)
   \<and> (user_type u = ''hospital'' \<and> body_status b = Some ''approved''
        \<and> donation_invalid_paths (d\<lparr>status := ''approved''\<rparr>) = [] \<longrightarrow>
      (\<exists>x. patch_donation u b t d = Inr x \<and> status x = ''approved''
             \<and> hospitalId x = Some (user_id u)))
   \<and> (body_status b = Some ''approved''
        \<and> request_invalid_paths (r\<lparr>status := ''approved''\<rparr>) = [] \<longrightarrow>
      (\<exists>x. patch_request u b t r = Inr x \<and> status x = ''approved''
             \<and> hospitalId x = Some (user_id u)))"
  using patch_donation_status[of u b t d d'] patch_request_status[of u b t r r']
    patch_donation_timestamps[of u b t d d'] patch_request_timestamps[of u b t r r']
    approve_donation_succeeds[of u b d t] approve_request_succeeds[of b r u t]
  by (simp split: if_splits)


theorem completed_left_only_by_approve_witness:
  "status completed_donation = ''completed'' \<and> completedAt completed_donation = Some 60 \<and>
   (\<exists>d'. patch_donation (example_user ''h2'' ''hospital'' ''mercy'') (status_body ''approved'') 70
            completed_donation = Inr d'
          \<and> status d' = ''approved'' \<and> completedAt d' = Some 60 \<and> hospitalId d' = Some ''h2'')
   \<and> status completed_request = ''completed'' \<and> completedAt completed_request = Some 60 \<and>
   (\<exists>r'. patch_request (example_user ''h2'' ''hospital'' ''mercy'') (status_body ''approved'') 70
            completed_request = Inr r'
          \<and> status r' = ''approved'' \<and> completedAt r' = Some 60 \<and> hospitalId r' = Some ''h2'')"
proof -
  let ?u = "example_user ''h2'' ''hospital'' ''mercy''"
  let ?b = "status_body ''approved''"
  have u: "user_type ?u = ''hospital''" "body_status ?b = Some ''approved''" "user_id ?u = ''h2''"
    by (simp_all add: example_user_def status_body_def)
  have c: "status completed_donation = ''completed''" "completedAt completed_donation = Some 60"
    "status completed_request = ''completed''" "completedAt completed_request = Some 60"
    by (simp_all add: completed_donation_def completed_request_def)
  have v: "donation_invalid_paths (completed_donation\<lparr>status := ''approved''\<rparr>) = []"
    "request_invalid_paths (completed_request\<lparr>status := ''approved''\<rparr>) = []"
    by (simp_all add: completed_donation_def completed_request_def example_donation_def
        example_request_def eval_defs)
  have "(\<exists>x. patch_donation ?u ?b 70 completed_donation = Inr x \<and> status x = ''approved''
             \<and> hospitalId x = Some ''h2'')
      \<and> (\<exists>x. patch_request ?u ?b 70 completed_request = Inr x \<and> status x = ''approved''
             \<and> hospitalId x = Some ''h2'')"
    using completed_left_only_by_approve[of completed_donation ?u ?b 70 completed_donation
        completed_request completed_request] u v
    by simp
  then obtain d' r' where d: "patch_donation ?u ?b 70 completed_donation = Inr d'"
    "status d' = ''approved''" "hospitalId d' = Some ''h2''"
    and r: "patch_request ?u ?b 70 completed_request = Inr r'"
    "status r' = ''approved''" "hospitalId r' = Some ''h2''"
    by blast
  have "completedAt d' = Some 60" "completedAt r' = Some 60"
    using completed_left_only_by_approve[of completed_donation ?u ?b 70 d' completed_request r']
      c d r by simp_all
  then show ?thesis using c d r by simp
qed

text \<open>
  C4 as stated fails: a request that \<open>h1\<close> completed is moved back to \<open>approved\<close>, and
  reassigned, by an approve of \<open>h2\<close>.
\<close>

theorem completed_request_approved_again:
  "map status_and_hospital (requests (run completed_by_h1 empty_store))
     = [(''completed'', Some ''h1'')]
   \<and> map status_and_hospital (requests (run reapproved_by_h2 empty_store))
     = [(''approved'', Some ''h2'')]"
  by (simp add: reapproved_by_h2_def completed_by_h1_def approved_by_h1_def
      status_and_hospital_def eval_defs)

section \<open>Who may complete\<close>

lemma complete_donation_succeeds:
  assumes "user_type u = ''hospital''" "body_status b = Some ''completed''"
    "donation_invalid_paths d = []"
  shows "\<exists>d'. patch_donation u b t d = Inr d' \<and> status d' = ''completed''
            \<and> hospitalId d' = hospitalId d \<and> approvedBy d' = approvedBy d"
  using assms
  by (auto simp: patch_donation_def save_donation_def Let_def pre_save_frame
      donation_valid_iff donation_status_enum_def split: option.splits)

lemma complete_request_succeeds:
  assumes "body_status b = Some ''completed''" "request_invalid_paths r = []"
  shows "\<exists>r'. patch_request u b t r = Inr r' \<and> status r' = ''completed''
            \<and> hospitalId r' = Some (user_id u)"
  using assms
  by (auto simp: patch_request_def save_request_def Let_def pre_save_frame
      request_valid_iff request_status_enum_def split: option.splits)

text \<open>
  C5, as amended. A complete by a hospital succeeds on a valid entry whichever hospital the
  entry is assigned to: on a donation it sets the status to \<open>completed\<close> and keeps the
  \<open>hospitalId\<close> the donation had; on a request it sets the status to \<open>completed\<close> and makes
  the caller the assigned hospital. An admin completes a request in the same way.
\<close>

theorem complete_by_any_hospital:
  "(user_type u = ''hospital'' \<and> body_status b = Some ''completed''
      \<and> findById i (donations s) = Some d \<and> donation_invalid_paths d = [] \<longrightarrow>
      (\<exists>d'. router_patch_donations u i b t s
               = (Json 200 d', s\<lparr>donations := update_doc d' (donations s)\<rparr>)
           \<and> status d' = ''completed'' \<and> hospitalId d' = hospitalId d))
   \<and> (user_type u \<in> {''hospital'', ''admin''} \<and> body_status b = Some ''completed''
      \<and> findById i (requests s) = Some r \<and> request_invalid_paths r = [] \<longrightarrow>
      (\<exists>r' reply. router_patch_requests u i b t s
               = (Json 200 reply, s\<lparr>requests := update_doc r' (requests s)\<rparr>)
           \<and> status r' = ''completed'' \<and> hospitalId r' = Some (user_id u)))"
proof (intro conjI impI)
  assume a: "user_type u = ''hospital'' \<and> body_status b = Some ''completed''
      \<and> findById i (donations s) = Some d \<and> donation_invalid_paths d = []"
  then obtain d' where "patch_donation u b t d = Inr d'" "status d' = ''completed''"
    "hospitalId d' = hospitalId d"
    using complete_donation_succeeds[of u b d t] by blast
  then show "\<exists>d'. router_patch_donations u i b t s
               = (Json 200 d', s\<lparr>donations := update_doc d' (donations s)\<rparr>)
           \<and> status d' = ''completed'' \<and> hospitalId d' = hospitalId d"
    using a by (simp add: router_patch_donations_def)
next
  assume a: "user_type u \<in> {''hospital'', ''admin''} \<and> body_status b = Some ''completed''
      \<and> findById i (requests s) = Some r \<and> request_invalid_paths r = []"
  then obtain r' where "patch_request u b t r = Inr r'" "status r' = ''completed''"
    "hospitalId r' = Some (user_id u)"
    using complete_request_succeeds[of b r u t] by blast
  then show "\<exists>r' reply. router_patch_requests u i b t s
               = (Json 200 reply, s\<lparr>requests := update_doc r' (requests s)\<rparr>)
           \<and> status r' = ''completed'' \<and> hospitalId r' = Some (user_id u)"
    using a by (auto simp: router_patch_requests_def)
qed

theorem complete_by_any_hospital_witness:
  "(\<exists>d d'. findById ''a1'' (donations (run donation_approved_by_h1 empty_store)) = Some d
      \<and> hospitalId d = Some ''h1''
      \<and> fst (router_patch_donations (example_user ''h2'' ''hospital'' ''mercy'') ''a1''
               (status_body ''completed'') 60 (run donation_approved_by_h1 empty_store))
          = Json 200 d'
      \<and> status d' = ''completed'' \<and> hospitalId d' = Some ''h1'')
   \<and> (\<exists>r r' reply. findById ''b1'' (requests (run approved_by_h1 empty_store)) = Some r
      \<and> hospitalId r = Some ''h1''
      \<and> router_patch_requests (example_user ''h2'' ''hospital'' ''mercy'') ''b1''
               (status_body ''completed'') 60 (run approved_by_h1 empty_store)
          = (Json 200 reply, (run approved_by_h1 empty_store)
               \<lparr>requests := update_doc r' (requests (run approved_by_h1 empty_store))\<rparr>)
      \<and> status r' = ''completed'' \<and> hospitalId r' = Some ''h2'')"
proof -
  let ?u = "example_user ''h2'' ''hospital'' ''mercy''"
  let ?b = "status_body ''completed''"
  let ?sd = "run donation_approved_by_h1 empty_store"
  let ?sr = "run approved_by_h1 empty_store"
  have u: "user_type ?u = ''hospital''" "body_status ?b = Some ''completed''" "user_id ?u = ''h2''"
    by (simp_all add: example_user_def status_body_def)
  have "\<exists>d. findById ''a1'' (donations ?sd) = Some d \<and> hospitalId d = Some ''h1''
          \<and> donation_invalid_paths d = []"
    by (simp add: donation_approved_by_h1_def eval_defs)
  then obtain d where d: "findById ''a1'' (donations ?sd) = Some d" "hospitalId d = Some ''h1''"
    "donation_invalid_paths d = []" by blast
  have "\<exists>r. findById ''b1'' (requests ?sr) = Some r \<and> hospitalId r = Some ''h1''
          \<and> request_invalid_paths r = []"
    by (simp add: approved_by_h1_def eval_defs)
  then obtain r where r: "findById ''b1'' (requests ?sr) = Some r" "hospitalId r = Some ''h1''"
    "request_invalid_paths r = []" by blast
  have "\<exists>d'. router_patch_donations ?u ''a1'' ?b 60 ?sd
               = (Json 200 d', ?sd\<lparr>donations := update_doc d' (donations ?sd)\<rparr>)
           \<and> status d' = ''completed'' \<and> hospitalId d' = hospitalId d"
    using complete_by_any_hospital[where u = ?u and b = ?b and i = "''a1''" and s = ?sd
        and d = d and t = 60] u d by simp
  moreover
  have "\<exists>r' reply. router_patch_requests ?u ''b1'' ?b 60 ?sr
               = (Json 200 reply, ?sr\<lparr>requests := update_doc r' (requests ?sr)\<rparr>)
           \<and> status r' = ''completed'' \<and> hospitalId r' = Some (user_id ?u)"
    using complete_by_any_hospital[where u = ?u and b = ?b and i = "''b1''" and s = ?sr
        and r = r and t = 60] u r by simp
  ultimately show ?thesis using d r u by fastforce
qed

text \<open>
  C5 as stated fails: the request is assigned to \<open>h1\<close>, and the complete of \<open>h2\<close> is
  answered with 200 and stored.
\<close>

theorem unassigned_hospital_completes:
  "map status_and_hospital (requests (run approved_by_h1 empty_store))
     = [(''approved'', Some ''h1'')]
   \<and> fst (router_patch_requests (example_user ''h2'' ''hospital'' ''mercy'') ''b1''
            (status_body ''completed'') 60 (run approved_by_h1 empty_store))
     = Json 200 \<lparr>patched_id = ''b1'', patched_status = ''completed'',
                 patched_hospitalName = Some ''mercy'', patched_updatedAt = 60\<rparr>
   \<and> map status_and_hospital
       (requests (snd (router_patch_requests (example_user ''h2'' ''hospital'' ''mercy'') ''b1''
            (status_body ''completed'') 60 (run approved_by_h1 empty_store))))
     = [(''completed'', Some ''h2'')]"
  by (simp add: approved_by_h1_def status_and_hospital_def eval_defs)

section \<open>Approving\<close>

lemma pre_save_approvedAt:
  "approvedAt (pre_save t m e) =
     (if m \<and> status e = ''approved'' \<and> approvedAt e = None then Some t else approvedAt e)"
  by (simp add: pre_save_def Let_def)

lemma pre_save_approved_inv:
  "(status e = ''approved'' \<and> \<not> m \<longrightarrow> approvedAt e \<noteq> None) \<Longrightarrow>
   status (pre_save t m e) = ''approved'' \<longrightarrow> approvedAt (pre_save t m e) \<noteq> None"
  by (auto simp: pre_save_frame pre_save_approvedAt)

lemma save_donation_Inr:
  "save_donation t s x = Inr d' \<Longrightarrow> d' = pre_save t (status x \<noteq> s) x"
  by (simp add: save_donation_def split: if_splits)

lemma save_request_Inr:
  "save_request t s x = Inr d' \<Longrightarrow> d' = pre_save t (status x \<noteq> s) x"
  by (simp add: save_request_def split: if_splits)

lemma patch_donation_saved:
  assumes "patch_donation u b t d = Inr d'"
  shows "\<exists>x. d' = pre_save t (status x \<noteq> status d) x \<and> approvedAt x = approvedAt d
            \<and> completedAt x = completedAt d"
proof -
  from assms obtain y where y: "save_donation t (status d)
      (if truthy (body_patientId b) then y\<lparr>patientId := body_patientId b\<rparr> else y) = Inr d'"
    "approvedAt y = approvedAt d" "completedAt y = completedAt d"
    by (simp add: patch_donation_def Let_def split: if_splits option.splits sum.splits)
  let ?x = "if truthy (body_patientId b) then y\<lparr>patientId := body_patientId b\<rparr> else y"
  have "approvedAt ?x = approvedAt d" "completedAt ?x = completedAt d"
    using y(2,3) by (simp_all split: option.splits)
  then show ?thesis using save_donation_Inr[OF y(1)] by blast
qed

lemma patch_request_saved:
  assumes "patch_request u b t r = Inr r'"
  shows "\<exists>x. r' = pre_save t (status x \<noteq> status r) x \<and> approvedAt x = approvedAt r
            \<and> completedAt x = completedAt r"
proof -
  from assms obtain y where y: "save_request t (status r) y = Inr r'"
    "approvedAt y = approvedAt r" "completedAt y = completedAt r"
    by (simp add: patch_request_def Let_def split: if_splits option.splits sum.splits)
  then show ?thesis using save_request_Inr[OF y(1)] by blast
qed

lemma patch_donation_approvedAt:
  assumes "patch_donation u b t d = Inr d'" "status d = ''approved'' \<longrightarrow> approvedAt d \<noteq> None"
  shows "status d' = ''approved'' \<longrightarrow> approvedAt d' \<noteq> None"
proof -
  from patch_donation_saved[OF assms(1)] obtain x where
    x: "d' = pre_save t (status x \<noteq> status d) x" "approvedAt x = approvedAt d" by blast
  have "status x = ''approved'' \<and> \<not> status x \<noteq> status d \<longrightarrow> approvedAt x \<noteq> None"
    using assms(2) x(2) by auto
  then show ?thesis unfolding x(1) by (rule pre_save_approved_inv)
qed

lemma patch_request_approvedAt:
  assumes "patch_request u b t r = Inr r'" "status r = ''approved'' \<longrightarrow> approvedAt r \<noteq> None"
  shows "status r' = ''approved'' \<longrightarrow> approvedAt r' \<noteq> None"
proof -
  from patch_request_saved[OF assms(1)] obtain x where
    x: "r' = pre_save t (status x \<noteq> status r) x" "approvedAt x = approvedAt r" by blast
  have "status x = ''approved'' \<and> \<not> status x \<noteq> status r \<longrightarrow> approvedAt x \<noteq> None"
    using assms(2) x(2) by auto
  then show ?thesis unfolding x(1) by (rule pre_save_approved_inv)
qed

lemma approve_donation_result:
  assumes "user_type u = ''hospital''" "body_status b = Some ''approved''"
    "donation_invalid_paths d = []" "status d = ''approved'' \<longrightarrow> approvedAt d \<noteq> None"
  shows "\<exists>d'. patch_donation u b t d = Inr d' \<and> status d' = ''approved''
           \<and> hospitalId d' = Some (user_id u) \<and> hospitalName d' = caller_name u
           \<and> approvedBy d' = Some (user_id u)
           \<and> approvedAt d' = (case approvedAt d of None \<Rightarrow> Some t | Some a \<Rightarrow> Some a)"
  using assms
  by (cases "truthy (body_patientId b)"; cases "approvedAt d")
     (simp_all add: patch_donation_def save_donation_def pre_save_frame pre_save_approvedAt
      donation_valid_iff donation_status_enum_def)

lemma approve_request_result:
  assumes "body_status b = Some ''approved''"
    "request_invalid_paths r = []" "status r = ''approved'' \<longrightarrow> approvedAt r \<noteq> None"
  shows "\<exists>r'. patch_request u b t r = Inr r' \<and> status r' = ''approved''
           \<and> hospitalId r' = Some (user_id u) \<and> hospitalName r' = caller_name u
           \<and> approvedBy r' = Some (user_id u)
           \<and> approvedAt r' = (case approvedAt r of None \<Rightarrow> Some t | Some a \<Rightarrow> Some a)"
  using assms
  by (cases "approvedAt r")
     (simp_all add: patch_request_def save_request_def pre_save_frame pre_save_approvedAt
      request_valid_iff request_status_enum_def)

text \<open>
  What the approve branches do, on every entry of a store that calls to the two routers
  build from the empty one: an approve by a hospital on a donation, and by a hospital or an
  admin on a request, succeeds, sets the status to \<open>approved\<close>, assigns the entry to the
  caller, and sets \<open>approvedAt\<close> to the time of the call only when it was unset.
\<close>

lemma approve_assigns_caller:
  "(\<forall>d\<in>set (donations (run cs empty_store)). \<forall>u b t.
      user_type u = ''hospital'' \<and> body_status b = Some ''approved'' \<longrightarrow>
      (\<exists>d'. patch_donation u b t d = Inr d' \<and> status d' = ''approved''
           \<and> hospitalId d' = Some (user_id u) \<and> hospitalName d' = caller_name u
           \<and> approvedBy d' = Some (user_id u)
           \<and> approvedAt d' = (case approvedAt d of None \<Rightarrow> Some t | Some a \<Rightarrow> Some a)))
   \<and> (\<forall>r\<in>set (requests (run cs empty_store)). \<forall>u b t.
      body_status b = Some ''approved'' \<longrightarrow>
      (\<exists>r'. patch_request u b t r = Inr r' \<and> status r' = ''approved''
           \<and> hospitalId r' = Some (user_id u) \<and> hospitalName r' = caller_name u
           \<and> approvedBy r' = Some (user_id u)
           \<and> approvedAt r' = (case approvedAt r of None \<Rightarrow> Some t | Some a \<Rightarrow> Some a)))"
proof -
  have d: "\<forall>d\<in>set (donations (run cs empty_store)).
             donation_invalid_paths d = [] \<and> (status d = ''approved'' \<longrightarrow> approvedAt d \<noteq> None)"
  proof (rule donations_run)
    show "\<forall>d\<in>set (donations empty_store).
             donation_invalid_paths d = [] \<and> (status d = ''approved'' \<longrightarrow> approvedAt d \<noteq> None)"
      by (simp add: empty_store_def)
  next
    fix u b t and d d' :: Donation
    assume "donation_invalid_paths d = [] \<and> (status d = ''approved'' \<longrightarrow> approvedAt d \<noteq> None)"
      and "patch_donation u b t d = Inr d'"
    then show "donation_invalid_paths d' = [] \<and> (status d' = ''approved'' \<longrightarrow> approvedAt d' \<noteq> None)"
      using patch_donation_valid patch_donation_approvedAt by blast
  next
    fix u b i t
    assume "donation_invalid_paths (new_donation u b i t) = []"
    then show "donation_invalid_paths (pre_save t True (new_donation u b i t)) = []
       \<and> (status (pre_save t True (new_donation u b i t)) = ''approved''
            \<longrightarrow> approvedAt (pre_save t True (new_donation u b i t)) \<noteq> None)"
      by (simp add: invalid_paths_pre_save pre_save_frame new_entry_fields)
  qed
  have r: "\<forall>r\<in>set (requests (run cs empty_store)).
             request_invalid_paths r = [] \<and> (status r = ''approved'' \<longrightarrow> approvedAt r \<noteq> None)"
  proof (rule requests_run)
    show "\<forall>r\<in>set (requests empty_store).
             request_invalid_paths r = [] \<and> (status r = ''approved'' \<longrightarrow> approvedAt r \<noteq> None)"
      by (simp add: empty_store_def)
  next
    fix u b t and r r' :: Request
    assume "request_invalid_paths r = [] \<and> (status r = ''approved'' \<longrightarrow> approvedAt r \<noteq> None)"
      and "patch_request u b t r = Inr r'"
    then show "request_invalid_paths r' = [] \<and> (status r' = ''approved'' \<longrightarrow> approvedAt r' \<noteq> None)"
      using patch_request_valid patch_request_approvedAt by blast
  next
    fix u b i t
    assume "request_invalid_paths (new_request u b i t) = []"
    then show "request_invalid_paths (pre_save t True (new_request u b i t)) = []
       \<and> (status (pre_save t True (new_request u b i t)) = ''approved''
            \<longrightarrow> approvedAt (pre_save t True (new_request u b i t)) \<noteq> None)"
      by (simp add: invalid_paths_pre_save pre_save_frame new_entry_fields)
  qed
  show ?thesis
  proof (intro conjI ballI allI impI)
    fix x :: Donation and u :: User and b :: PatchBody and t :: Date
    assume "x \<in> set (donations (run cs empty_store))"
      and "user_type u = ''hospital'' \<and> body_status b = Some ''approved''"
    then show "\<exists>d'. patch_donation u b t x = Inr d' \<and> status d' = ''approved''
           \<and> hospitalId d' = Some (user_id u) \<and> hospitalName d' = caller_name u
           \<and> approvedBy d' = Some (user_id u)
           \<and> approvedAt d' = (case approvedAt x of None \<Rightarrow> Some t | Some a \<Rightarrow> Some a)"
      using d approve_donation_result[of u b x t] by simp
  next
    fix x :: Request and u :: User and b :: PatchBody and t :: Date
    assume "x \<in> set (requests (run cs empty_store))"
      and "body_status b = Some ''approved''"
    then show "\<exists>r'. patch_request u b t x = Inr r' \<and> status r' = ''approved''
           \<and> hospitalId r' = Some (user_id u) \<and> hospitalName r' = caller_name u
           \<and> approvedBy r' = Some (user_id u)
           \<and> approvedAt r' = (case approvedAt x of None \<Rightarrow> Some t | Some a \<Rightarrow> Some a)"
      using r approve_request_result[of b x u t] by simp
  qed
qed

text \<open>
  C6. The claim includes an approve by an admin on a donation. The handler of
  \<open>PATCH /donations/:id\<close> lets an admin through and has no status branch for one: the call
  is answered with 200 and the donation is saved as it was, still \<open>pending\<close> and unassigned.
  (\<open>PATCH /requests/:id\<close> treats an admin like a hospital.)
\<close>

theorem admin_approve_of_donation_ignored:
  "map status_and_hospital (donations (run one_donation empty_store)) = [(''pending'', None)]
   \<and> fst (router_patch_donations (example_user ''adm'' ''admin'' ''root'') ''a1''
            (status_body ''approved'') 20 (run one_donation empty_store))
     = Json 200 (example_donation\<lparr>updatedAt := 20\<rparr>)
   \<and> status_and_hospital (example_donation\<lparr>updatedAt := 20\<rparr>) = (''pending'', None)
   \<and> approvedBy (example_donation\<lparr>updatedAt := 20\<rparr>) = None
   \<and> approvedAt (example_donation\<lparr>updatedAt := 20\<rparr>) = None"
  by (simp add: one_donation_def example_donation_def status_and_hospital_def eval_defs)

section \<open>What a hospital is shown\<close>

lemma matches_hospital_query:
  "matches (entry_values e) (hospital_query h) =
     ((status e = ''pending'' \<and> h \<notin> set (rejecting_hospitals e))
      \<or> (status e = ''approved'' \<and> hospitalId e = Some h)
      \<or> (status e = ''rejected'' \<and> hospitalId e = Some h)
      \<or> h \<in> set (rejecting_hospitals e))"
  by (cases "hospitalId e") (auto simp: hospital_query_def rejecting_hospitals_def opt_values_def)

lemma donation_matches_hospital_query:
  "matches (donation_values d) (hospital_query h) = matches (entry_values d) (hospital_query h)"
  by (simp add: hospital_query_def donation_values_def)

lemma patch_donation_rejections_grow:
  "patch_donation u b t d = Inr d' \<Longrightarrow>
     set (rejecting_hospitals d) \<subseteq> set (rejecting_hospitals d')"
  by (auto simp: patch_donation_def save_donation_def Let_def rejecting_hospitals_def pre_save_frame
      split: if_splits option.splits sum.splits)

lemma patch_request_rejections_grow:
  "patch_request u b t r = Inr r' \<Longrightarrow>
     set (rejecting_hospitals r) \<subseteq> set (rejecting_hospitals r')"
  by (auto simp: patch_request_def save_request_def Let_def rejecting_hospitals_def pre_save_frame
      split: if_splits option.splits sum.splits)

text \<open>
  C7. For a hospital, \<open>GET /donations\<close> and \<open>GET /requests\<close> return exactly the entries
  that are pending and not rejected by this hospital, those that are approved or rejected
  and assigned to it, and those whose rejections name it; and an entry whose rejections
  name the hospital still matches its filter after any later successful update, whatever
  the status has become.
\<close>

theorem hospital_listing:
  "user_type u = ''hospital'' \<longrightarrow>
     (\<exists>ds. router_get_donations u s = Json 200 ds \<and>
        set ds = {d \<in> set (donations s). status d = ''pending'' \<and> user_id u \<notin> set (rejecting_hospitals d)}
               \<union> {d \<in> set (donations s). status d \<in> {''approved'', ''rejected''} \<and> hospitalId d = Some (user_id u)}
               \<union> {d \<in> set (donations s). user_id u \<in> set (rejecting_hospitals d)})
   \<and> (\<exists>rs. router_get_requests u s = Json 200 rs \<and>
        set rs = {r \<in> set (requests s). status r = ''pending'' \<and> user_id u \<notin> set (rejecting_hospitals r)}
               \<union> {r \<in> set (requests s). status r \<in> {''approved'', ''rejected''} \<and> hospitalId r = Some (user_id u)}
               \<union> {r \<in> set (requests s). user_id u \<in> set (rejecting_hospitals r)})
   \<and> (\<forall>d d' v b t. user_id u \<in> set (rejecting_hospitals d) \<and> patch_donation v b t d = Inr d'
         \<longrightarrow> matches (donation_values d') (hospital_query (user_id u)))
   \<and> (\<forall>r r' v b t. user_id u \<in> set (rejecting_hospitals r) \<and> patch_request v b t r = Inr r'
         \<longrightarrow> matches (entry_values r') (hospital_query (user_id u)))"
proof
  assume h: "user_type u = ''hospital''"
  have d: "router_get_donations u s =
      Json 200 (filter (\<lambda>d. matches (entry_values d) (hospital_query (user_id u))) (donations s))"
    using h by (simp add: router_get_donations_def donations_query_def
        donation_matches_hospital_query)
  have r: "router_get_requests u s =
      Json 200 (rev (sort_key createdAt
         (filter (\<lambda>r. matches (entry_values r) (hospital_query (user_id u))) (requests s))))"
    using h by (simp add: router_get_requests_def requests_query_def)
  have 1: "\<exists>ds. router_get_donations u s = Json 200 ds \<and>
        set ds = {d \<in> set (donations s). status d = ''pending'' \<and> user_id u \<notin> set (rejecting_hospitals d)}
               \<union> {d \<in> set (donations s). status d \<in> {''approved'', ''rejected''} \<and> hospitalId d = Some (user_id u)}
               \<union> {d \<in> set (donations s). user_id u \<in> set (rejecting_hospitals d)}"
    unfolding d by (auto simp: matches_hospital_query)
  have 2: "\<exists>rs. router_get_requests u s = Json 200 rs \<and>
        set rs = {r \<in> set (requests s). status r = ''pending'' \<and> user_id u \<notin> set (rejecting_hospitals r)}
               \<union> {r \<in> set (requests s). status r \<in> {''approved'', ''rejected''} \<and> hospitalId r = Some (user_id u)}
               \<union> {r \<in> set (requests s). user_id u \<in> set (rejecting_hospitals r)}"
    unfolding r by (auto simp: matches_hospital_query)
  have 3: "\<forall>d d' v b t. user_id u \<in> set (rejecting_hospitals d) \<and> patch_donation v b t d = Inr d'
         \<longrightarrow> matches (donation_values d') (hospital_query (user_id u))"
  proof (intro allI impI)
    fix d d' :: Donation and v b t
    assume "user_id u \<in> set (rejecting_hospitals d) \<and> patch_donation v b t d = Inr d'"
    then have "user_id u \<in> set (rejecting_hospitals d')"
      using patch_donation_rejections_grow by blast
    then show "matches (donation_values d') (hospital_query (user_id u))"
      by (simp add: donation_matches_hospital_query matches_hospital_query)
  qed
  have 4: "\<forall>r r' v b t. user_id u \<in> set (rejecting_hospitals r) \<and> patch_request v b t r = Inr r'
         \<longrightarrow> matches (entry_values r') (hospital_query (user_id u))"
  proof (intro allI impI)
    fix r r' :: Request and v b t
    assume "user_id u \<in> set (rejecting_hospitals r) \<and> patch_request v b t r = Inr r'"
    then have "user_id u \<in> set (rejecting_hospitals r')"
      using patch_request_rejections_grow by blast
    then show "matches (entry_values r') (hospital_query (user_id u))"
      by (simp add: matches_hospital_query)
  qed
  show "(\<exists>ds. router_get_donations u s = Json 200 ds \<and>
        set ds = {d \<in> set (donations s). status d = ''pending'' \<and> user_id u \<notin> set (rejecting_hospitals d)}
               \<union> {d \<in> set (donations s). status d \<in> {''approved'', ''rejected''} \<and> hospitalId d = Some (user_id u)}
               \<union> {d \<in> set (donations s). user_id u \<in> set (rejecting_hospitals d)})
   \<and> (\<exists>rs. router_get_requests u s = Json 200 rs \<and>
        set rs = {r \<in> set (requests s). status r = ''pending'' \<and> user_id u \<notin> set (rejecting_hospitals r)}
               \<union> {r \<in> set (requests s). status r \<in> {''approved'', ''rejected''} \<and> hospitalId r = Some (user_id u)}
               \<union> {r \<in> set (requests s). user_id u \<in> set (rejecting_hospitals r)})
   \<and> (\<forall>d d' v b t. user_id u \<in> set (rejecting_hospitals d) \<and> patch_donation v b t d = Inr d'
         \<longrightarrow> matches (donation_values d') (hospital_query (user_id u)))
   \<and> (\<forall>r r' v b t. user_id u \<in> set (rejecting_hospitals r) \<and> patch_request v b t r = Inr r'
         \<longrightarrow> matches (entry_values r') (hospital_query (user_id u)))"
    using 1 2 3 4 by blast
qed


theorem hospital_listing_witness:
  "user_type (example_user ''h1'' ''hospital'' ''hope'') = ''hospital'' \<and>
   (\<exists>ds. router_get_donations (example_user ''h1'' ''hospital'' ''hope'')
            (run rejected_then_approved empty_store) = Json 200 ds
      \<and> map status_and_hospital ds = [(''approved'', Some ''h2'')]
      \<and> map rejecting_hospitals ds = [[''h1'']]
      \<and> set ds =
          {d \<in> set (donations (run rejected_then_approved empty_store)).
             status d = ''pending'' \<and> ''h1'' \<notin> set (rejecting_hospitals d)}
          \<union> {d \<in> set (donations (run rejected_then_approved empty_store)).
             status d \<in> {''approved'', ''rejected''} \<and> hospitalId d = Some ''h1''}
          \<union> {d \<in> set (donations (run rejected_then_approved empty_store)).
             ''h1'' \<in> set (rejecting_hospitals d)})"
proof -
  let ?u = "example_user ''h1'' ''hospital'' ''hope''"
  let ?s = "run rejected_then_approved empty_store"
  have u: "user_type ?u = ''hospital''" "user_id ?u = ''h1''"
    by (simp_all add: example_user_def)
  from hospital_listing[of ?u ?s] u obtain ds where
    ds: "router_get_donations ?u ?s = Json 200 ds"
    "set ds = {d \<in> set (donations ?s). status d = ''pending'' \<and> ''h1'' \<notin> set (rejecting_hospitals d)}
            \<union> {d \<in> set (donations ?s). status d \<in> {''approved'', ''rejected''} \<and> hospitalId d = Some ''h1''}
            \<union> {d \<in> set (donations ?s). ''h1'' \<in> set (rejecting_hospitals d)}"
    by auto
  have "\<exists>xs. router_get_donations ?u ?s = Json 200 xs
          \<and> map status_and_hospital xs = [(''approved'', Some ''h2'')]
          \<and> map rejecting_hospitals xs = [[''h1'']]"
    by (simp add: rejected_then_approved_def one_donation_def router_get_donations_def
        donations_query_def hospital_query_def donation_values_def opt_values_def
        status_and_hospital_def rejecting_hospitals_def eval_defs)
  with ds have m: "map status_and_hospital ds = [(''approved'', Some ''h2'')]"
    "map rejecting_hospitals ds = [[''h1'']]" by auto
  show ?thesis
  proof (intro conjI exI[of _ ds])
    show "user_type ?u = ''hospital''" by (rule u)
  qed (use ds m in simp_all)
qed

section \<open>Registration and the password\<close>

lemma legacy_data_password:
  "ty \<in> set user_type_enum \<Longrightarrow> legacy_data ty nm em ph pw addr bg (ty @ ''-password'') = Some pw"
  by (auto simp: user_type_enum_def legacy_data_def)

lemma hooks_keep_data:
  "data (hash_password hash m u) = data u" "data (populate_profile now u) = data u"
  "user_type (hash_password hash m u) = user_type u"
  "user_type (populate_profile now u) = user_type u"
  "password (populate_profile now u) = password u"
  "googleId (populate_profile now u) = googleId u"
  by (simp_all add: hash_password_def populate_profile_def Let_def split: option.splits)

lemma user_valid_type:
  "user_invalid_paths u = [] \<Longrightarrow> user_type u \<in> set user_type_enum"
  by (simp add: user_invalid_paths_def failing_Nil)

lemma insert_user_Inr:
  assumes "insert_user hash now u s = Inr (saved, s1)"
  shows "user_invalid_paths u = [] \<and> saved = hash_password hash True (populate_profile now u)
         \<and> users s1 = users s @ [saved] \<and> donations s1 = donations s \<and> requests s1 = requests s"
  using assms by (simp add: insert_user_def Let_def split: if_splits) auto

lemma stats_save_users:
  "stats_save ok now st s1 = Inr s2 \<Longrightarrow> users s2 = users s1"
  by (auto simp: stats_save_def split: if_splits)

lemma register_success:
  assumes "router_post_register hash sign body newId now ok s = (Json 201 reply, s')"
  shows "\<exists>ty nm em ph pw saved.
           reg_type body = Some ty \<and> reg_name body = Some nm \<and> reg_email body = Some em
         \<and> reg_phone body = Some ph \<and> reg_password body = Some pw
         \<and> user_invalid_paths (new_User body ty nm em ph pw newId now) = []
         \<and> saved = hash_password hash True (populate_profile now (new_User body ty nm em ph pw newId now))
         \<and> users s' = users s @ [saved]
         \<and> reply = \<lparr>reply_user = registered_json saved, reply_token = sign saved now\<rparr>"
  using assms
  by (simp add: router_post_register_def Let_def
      split: option.splits if_splits sum.splits prod.splits)
     (auto dest!: insert_user_Inr stats_save_users)


lemma findOne_email_type_Some:
  "findOne_email_type e t us = Some u \<Longrightarrow> u \<in> set us"
  by (induction us) (auto simp: findOne_email_type_def split: if_splits)

lemma save_user_Inr:
  "save_user hash now u = Inr saved \<Longrightarrow> data saved = data u \<and> user_id saved = user_id u"
  by (auto simp: save_user_def hash_password_def populate_profile_def Let_def
      split: if_splits option.splits)

lemma login_success:
  assumes "router_post_login hash compare sign body now s = (Json 200 reply, s')"
  shows "\<exists>em pw ty u. login_email body = Some em \<and> login_password body = Some pw
         \<and> login_type body = Some ty
         \<and> findOne_email_type (toLowerCase em) (toLowerCase ty) (users s) = Some u
         \<and> comparePassword compare u pw
         \<and> json_id (reply_user reply) = user_id u
         \<and> json_data (reply_user reply) = data u"
  using assms
  by (simp add: router_post_login_def Let_def login_json_def
      split: option.splits if_splits sum.splits prod.splits)
     (auto dest!: save_user_Inr)

text \<open>
  C10. A registration that succeeds (reply 201) has a type among \<open>patient\<close>, \<open>hospital\<close>,
  \<open>donor\<close> and \<open>admin\<close>; the user it stores holds the submitted password unchanged under
  \<open>data['<type>-password']\<close> and its bcrypt digest under \<open>password\<close>, and the reply's \<open>data\<close>
  carries the submitted password. A login that succeeds (reply 200) returns the stored
  \<open>data\<close> object of the user.
\<close>

theorem plaintext_password_in_legacy_data:
  "(router_post_register hash sign body newId now ok s = (Json 201 reply, s') \<longrightarrow>
      (\<exists>ty pw u. reg_type body = Some ty \<and> reg_password body = Some pw
         \<and> ty \<in> {''patient'', ''hospital'', ''donor'', ''admin''}
         \<and> users s' = users s @ [u] \<and> user_id u = newId \<and> user_type u = ty
         \<and> data u (ty @ ''-password'') = Some pw \<and> password u = Some (hash pw)
         \<and> json_data (reply_user reply) (ty @ ''-password'') = Some pw))
   \<and> (router_post_login hash compare sign lbody now s = (Json 200 lreply, s'') \<longrightarrow>
      (\<exists>u\<in>set (users s). json_id (reply_user lreply) = user_id u
         \<and> json_data (reply_user lreply) = data u))"
proof (intro conjI impI)
  assume "router_post_register hash sign body newId now ok s = (Json 201 reply, s')"
  from register_success[OF this] obtain ty nm em ph pw saved where
    b: "reg_type body = Some ty" "reg_password body = Some pw"
    and v: "user_invalid_paths (new_User body ty nm em ph pw newId now) = []"
    and saved: "saved = hash_password hash True
                  (populate_profile now (new_User body ty nm em ph pw newId now))"
    and us: "users s' = users s @ [saved]"
    and reply: "reply = \<lparr>reply_user = registered_json saved, reply_token = sign saved now\<rparr>"
    by blast
  let ?n = "new_User body ty nm em ph pw newId now"
  have ty: "ty \<in> set user_type_enum"
    using user_valid_type[OF v] by (simp add: new_User_def)
  have d: "data saved (ty @ ''-password'') = Some pw"
    using legacy_data_password[OF ty] by (simp add: saved hooks_keep_data new_User_def)
  have p: "password saved = Some (hash pw)"
    by (simp add: saved hash_password_def populate_profile_def new_User_def Let_def truthy_def)
  have i: "user_id saved = newId" "user_type saved = ty"
    by (simp_all add: saved hash_password_def populate_profile_def new_User_def Let_def truthy_def)
  have "json_data (reply_user reply) (ty @ ''-password'') = Some pw"
    using d by (simp add: reply registered_json_def)
  then show "\<exists>ty pw u. reg_type body = Some ty \<and> reg_password body = Some pw
         \<and> ty \<in> {''patient'', ''hospital'', ''donor'', ''admin''}
         \<and> users s' = users s @ [u] \<and> user_id u = newId \<and> user_type u = ty
         \<and> data u (ty @ ''-password'') = Some pw \<and> password u = Some (hash pw)
         \<and> json_data (reply_user reply) (ty @ ''-password'') = Some pw"
    using b ty us d p i by (auto simp: user_type_enum_def)
next
  assume "router_post_login hash compare sign lbody now s = (Json 200 lreply, s'')"
  from login_success[OF this] obtain em ty u where
    "findOne_email_type (toLowerCase em) (toLowerCase ty) (users s) = Some u"
    "json_id (reply_user lreply) = user_id u" "json_data (reply_user lreply) = data u"
    by blast
  then show "\<exists>u\<in>set (users s). json_id (reply_user lreply) = user_id u
         \<and> json_data (reply_user lreply) = data u"
    using findOne_email_type_Some by blast
qed

lemma example_regex_tests:
  "regex_test emailRegex ''Desk@Hope.org''" "regex_test emailRegex ''desk@hope.org''"
  "regex_test phoneRegex ''0123456789''"
  by code_simp+

lemmas user_eval_defs =
  router_post_register_def router_post_login_def insert_user_def save_user_def new_User_def
  legacy_data_def user_invalid_paths_def populate_profile_def hash_password_def
  registered_json_def login_json_def count_user_def register_error_def findOne_email_def
  findOne_email_type_def update_user_def isLocked_def comparePassword_def
  incLoginAttempts_def resetLoginAttempts_def toLowerCase_def lower_char_def trim_def
  whitespace_def upper_letters_def lower_letters_def user_type_enum_def user_status_enum_def
  gender_enum_def example_hash_def example_compare_def example_sign_def
  hospital_registration_def hospital_login_def

theorem plaintext_password_in_legacy_data_witness:
  "\<exists>reply s1 lreply s2.
      router_post_register example_hash example_sign hospital_registration ''u1'' 5 True
        empty_store = (Json 201 reply, s1)
    \<and> json_data (reply_user reply) ''hospital-password'' = Some ''s3cret-pw''
    \<and> map password (users s1) = [Some (example_hash ''s3cret-pw'')]
    \<and> router_post_login example_hash example_compare example_sign hospital_login 9 s1
        = (Json 200 lreply, s2)
    \<and> json_data (reply_user lreply) ''hospital-password'' = Some ''s3cret-pw''"
proof -
  let ?R = "router_post_register example_hash example_sign hospital_registration ''u1'' 5 True
              empty_store"
  let ?L = "router_post_login example_hash example_compare example_sign hospital_login 9 (snd ?R)"
  have "\<exists>reply. fst ?R = Json 201 reply"
    by (simp add: user_eval_defs eval_defs example_regex_tests)
  then obtain reply where R: "?R = (Json 201 reply, snd ?R)"
    by (metis prod.collapse)
  have "\<exists>lreply. fst ?L = Json 200 lreply"
    by (simp add: user_eval_defs eval_defs example_regex_tests)
  then obtain lreply where L: "?L = (Json 200 lreply, snd ?L)"
    by (metis prod.collapse)
  have b: "reg_type hospital_registration = Some ''hospital''"
    "reg_password hospital_registration = Some ''s3cret-pw''"
    by (simp_all add: hospital_registration_def)
  note reg = plaintext_password_in_legacy_data[where hash = example_hash
      and sign = example_sign and body = hospital_registration and newId = "''u1''"
      and now = 5 and ok = True and s = empty_store and reply = reply and s' = "snd ?R",
      THEN conjunct1, rule_format, OF R]
  with b obtain u where u: "users (snd ?R) = users empty_store @ [u]"
    "data u ''hospital-password'' = Some ''s3cret-pw''"
    "password u = Some (example_hash ''s3cret-pw'')"
    "json_data (reply_user reply) ''hospital-password'' = Some ''s3cret-pw''"
    by auto
  note log = plaintext_password_in_legacy_data[where s = "snd ?R" and hash = example_hash
      and compare = example_compare and sign = example_sign and lbody = hospital_login
      and now = 9 and lreply = lreply and s'' = "snd ?L",
      THEN conjunct2, rule_format, OF L]
  then obtain x where "x \<in> set (users (snd ?R))" "json_data (reply_user lreply) = data x"
    by auto
  then have l: "json_data (reply_user lreply) ''hospital-password'' = Some ''s3cret-pw''"
    using u by (simp add: empty_store_def)
  have p: "map password (users (snd ?R)) = [Some (example_hash ''s3cret-pw'')]"
    using u by (simp add: empty_store_def)
  show ?thesis
  proof (intro exI conjI)
    show "?R = (Json 201 reply, snd ?R)" by (rule R)
    show "json_data (reply_user reply) ''hospital-password'' = Some ''s3cret-pw''" by (rule u(4))
    show "map password (users (snd ?R)) = [Some (example_hash ''s3cret-pw'')]" by (rule p)
    show "?L = (Json 200 lreply, snd ?L)" by (rule L)
    show "json_data (reply_user lreply) ''hospital-password'' = Some ''s3cret-pw''" by (rule l)
  qed
qed

section \<open>Creating an entry and the statistics\<close>

lemma insert_donation_Inr:
  assumes "insert_donation now d s = Inr (saved, s1)"
  shows "saved = pre_save now True d \<and> donations s1 = donations s @ [saved]
         \<and> stats s1 = stats s \<and> requests s1 = requests s \<and> users s1 = users s"
  using assms
  by (simp add: insert_donation_def insert_doc_def Let_def split: if_splits) auto

lemma insert_request_Inr:
  assumes "insert_request now r s = Inr (saved, s1)"
  shows "saved = pre_save now True r \<and> requests s1 = requests s @ [saved]
         \<and> stats s1 = stats s \<and> donations s1 = donations s \<and> users s1 = users s"
  using assms
  by (simp add: insert_request_def insert_doc_def Let_def split: if_splits) auto

lemma new_entry_ids:
  "doc_id (new_donation u b i t) = i" "donorId (new_donation u b i t) = user_id u"
  "doc_id (new_request u c i t) = i" "patientId (new_request u c i t) = Some (user_id u)"
  by (simp_all add: new_donation_def new_request_def Let_def)

text \<open>
  A donation that is created (reply 201) adds one to \<open>totalDonations\<close> of the Stats
  document and changes no other counter.
\<close>

lemma donation_create_counts_one:
  assumes "router_post_donations u b i t ok s = (Json 201 d, s')"
  shows "\<exists>st. stats_findOne s = Some st
           \<and> stats_findOne s' = Some (st\<lparr>totalDonations := totalDonations st + 1, lastUpdated := t\<rparr>)
           \<and> donations s' = donations s @ [d]"
  using assms
  by (simp add: router_post_donations_def
      split: if_splits sum.splits prod.splits option.splits)
     (auto simp: stats_findOne_def stats_save_def dest!: insert_donation_Inr
      split: list.splits if_splits)

text \<open>
  Creation is not atomic. When the donation is saved and the statistics update then fails
  (there is no Stats document, or its write is refused), the reply is an error and the
  donation stays stored and is listed for its donor; the same holds for a request whose
  Stats write is refused.
\<close>

lemma create_is_not_atomic:
  "(user_type u = ''donor'' \<and> donation_invalid_paths (new_donation u b i t) = []
      \<and> i \<notin> set (map doc_id (donations s)) \<and> (stats s = [] \<or> \<not> ok) \<longrightarrow>
      (\<exists>e s'. router_post_donations u b i t ok s = (ErrorJson 400 e, s')
         \<and> donations s' = donations s @ [pre_save t True (new_donation u b i t)]
         \<and> stats s' = stats s
         \<and> (\<exists>ds. router_get_donations u s' = Json 200 ds
               \<and> pre_save t True (new_donation u b i t) \<in> set ds)))
   \<and> (user_type p = ''patient'' \<and> request_invalid_paths (new_request p c i t) = []
      \<and> i \<notin> set (map doc_id (requests s)) \<longrightarrow>
      (\<exists>e s'. router_post_requests p c i t False s = (ErrorJson 400 e, s')
         \<and> requests s' = requests s @ [pre_save t True (new_request p c i t)]
         \<and> stats s' = stats s
         \<and> (\<exists>rs. router_get_requests p s' = Json 200 rs
               \<and> pre_save t True (new_request p c i t) \<in> set rs)))"
proof (intro conjI impI)
  assume a: "user_type u = ''donor'' \<and> donation_invalid_paths (new_donation u b i t) = []
      \<and> i \<notin> set (map doc_id (donations s)) \<and> (stats s = [] \<or> \<not> ok)"
  let ?d = "pre_save t True (new_donation u b i t)"
  let ?s1 = "s\<lparr>donations := donations s @ [?d]\<rparr>"
  have ins: "insert_donation t (new_donation u b i t) s = Inr (?d, ?s1)"
    using a by (simp add: insert_donation_def insert_doc_def pre_save_frame new_entry_ids Let_def)
  have own: "donorId ?d = user_id u"
    by (simp add: pre_save_def new_entry_ids new_entry_fields Let_def)
  have "\<exists>e. router_post_donations u b i t ok s = (ErrorJson 400 e, ?s1)"
    using a ins
    by (auto simp: router_post_donations_def stats_findOne_def stats_save_def
        split: list.splits)
  moreover have "\<exists>ds. router_get_donations u ?s1 = Json 200 ds \<and> ?d \<in> set ds"
    using a own by (simp add: router_get_donations_def donations_query_def donation_values_def)
  ultimately show "\<exists>e s'. router_post_donations u b i t ok s = (ErrorJson 400 e, s')
         \<and> donations s' = donations s @ [?d] \<and> stats s' = stats s
         \<and> (\<exists>ds. router_get_donations u s' = Json 200 ds \<and> ?d \<in> set ds)"
    by fastforce
next
  assume a: "user_type p = ''patient'' \<and> request_invalid_paths (new_request p c i t) = []
      \<and> i \<notin> set (map doc_id (requests s))"
  let ?r = "pre_save t True (new_request p c i t)"
  let ?s1 = "s\<lparr>requests := requests s @ [?r]\<rparr>"
  have ins: "insert_request t (new_request p c i t) s = Inr (?r, ?s1)"
    using a by (simp add: insert_request_def insert_doc_def pre_save_frame new_entry_ids Let_def)
  have own: "patientId ?r = Some (user_id p)"
    by (simp add: pre_save_frame new_entry_ids)
  have "\<exists>e. router_post_requests p c i t False s = (ErrorJson 400 e, ?s1)"
    using a ins by (simp add: router_post_requests_def stats_save_def Let_def)
  moreover have "\<exists>rs. router_get_requests p ?s1 = Json 200 rs \<and> ?r \<in> set rs"
    using a own by (simp add: router_get_requests_def requests_query_def opt_values_def)
  ultimately show "\<exists>e s'. router_post_requests p c i t False s = (ErrorJson 400 e, s')
         \<and> requests s' = requests s @ [?r] \<and> stats s' = stats s
         \<and> (\<exists>rs. router_get_requests p s' = Json 200 rs \<and> ?r \<in> set rs)"
    by fastforce
qed

text \<open>
  C8. The claim includes that a successful create of a request adds one to its counter.
  The handler sets \<open>stats.totalRequests\<close>, which is no path of the Stats schema, so nothing
  of it is stored: the request below is created (reply 201) and every counter of the
  stored Stats document is what it was.
\<close>

theorem request_create_counts_nothing:
  "stats store_with_stats
     = [\<lparr>totalUsers = 0, totalDonors = 0, totalHospitals = 0, totalPatients = 0,
         totalDonations = 0, lastUpdated = 0\<rparr>]
   \<and> fst (router_post_requests (example_user ''p1'' ''patient'' ''pat'') bed_request ''b1'' 40
            True store_with_stats)
     = Json 201 \<lparr>created_id = ''b1'', created_type = Some ''bed'',
                 created_details = details example_request, created_status = ''pending'',
                 created_patientName = Some ''pat'', created_createdAt = 40\<rparr>
   \<and> stats (snd (router_post_requests (example_user ''p1'' ''patient'' ''pat'') bed_request ''b1''
            40 True store_with_stats))
     = [\<lparr>totalUsers = 0, totalDonors = 0, totalHospitals = 0, totalPatients = 0,
         totalDonations = 0, lastUpdated = 40\<rparr>]
   \<and> map doc_id (requests (snd (router_post_requests (example_user ''p1'' ''patient'' ''pat'')
            bed_request ''b1'' 40 True store_with_stats)))
     = [''b1'']"
  by (simp add: store_with_stats_def bed_request_def example_request_def eval_defs)

end
